theory Spec2Isabelle
  imports Complex_Main
begin

section \<open>JavaScript numbers\<close>

text \<open>
  The library computes on JavaScript numbers. A number is modelled as a real extended by
  the three special values the code tests for: \<open>NaN\<close>, \<open>+Infinity\<close> and \<open>-Infinity\<close>.
  The special values follow ECMAScript: \<open>NaN\<close> is absorbing and makes every comparison
  false, \<open>Infinity - Infinity\<close> and \<open>0 * Infinity\<close> are \<open>NaN\<close>, division by zero gives an
  infinity. Arithmetic on finite values is exact real arithmetic: the rounding, overflow
  and underflow of IEEE doubles are not part of the model, and there is a single zero,
  which divides like \<open>+0\<close>. Decimal literals denote the rational they spell.
\<close>

datatype number = NaN | NInf | Fin real | PInf

instantiation number :: "{zero, one, plus, uminus, minus, times, inverse, ord}"
begin

definition zero_number :: number where
  "zero_number = Fin 0"

definition one_number :: number where
  "one_number = Fin 1"

fun plus_number :: "number \<Rightarrow> number \<Rightarrow> number" where
  "plus_number NaN _ = NaN"
| "plus_number _ NaN = NaN"
| "plus_number (Fin a) (Fin b) = Fin (a + b)"
| "plus_number (Fin a) b = b"
| "plus_number a (Fin b) = a"
| "plus_number PInf PInf = PInf"
| "plus_number NInf NInf = NInf"
| "plus_number _ _ = NaN"

fun uminus_number :: "number \<Rightarrow> number" where
  "uminus_number NaN = NaN"
| "uminus_number NInf = PInf"
| "uminus_number PInf = NInf"
| "uminus_number (Fin a) = Fin (- a)"

definition minus_number :: "number \<Rightarrow> number \<Rightarrow> number" where
  "minus_number a b = a + (- b)"

fun times_number :: "number \<Rightarrow> number \<Rightarrow> number" where
  "times_number NaN _ = NaN"
| "times_number _ NaN = NaN"
| "times_number (Fin a) (Fin b) = Fin (a * b)"
| "times_number (Fin a) PInf = (if a = 0 then NaN else if 0 < a then PInf else NInf)"
| "times_number (Fin a) NInf = (if a = 0 then NaN else if 0 < a then NInf else PInf)"
| "times_number PInf (Fin b) = (if b = 0 then NaN else if 0 < b then PInf else NInf)"
| "times_number NInf (Fin b) = (if b = 0 then NaN else if 0 < b then NInf else PInf)"
| "times_number PInf PInf = PInf"
| "times_number NInf NInf = PInf"
| "times_number _ _ = NInf"

fun divide_number :: "number \<Rightarrow> number \<Rightarrow> number" where
  "divide_number NaN _ = NaN"
| "divide_number _ NaN = NaN"
| "divide_number (Fin a) (Fin b) =
     (if b = 0 then (if a = 0 then NaN else if 0 < a then PInf else NInf) else Fin (a / b))"
| "divide_number (Fin a) _ = Fin 0"
| "divide_number PInf (Fin b) = (if b < 0 then NInf else PInf)"
| "divide_number NInf (Fin b) = (if b < 0 then PInf else NInf)"
| "divide_number _ _ = NaN"

definition inverse_number :: "number \<Rightarrow> number" where
  "inverse_number a =
     (case a of NaN \<Rightarrow> NaN | Fin x \<Rightarrow> if x = 0 then PInf else Fin (1 / x) | _ \<Rightarrow> Fin 0)"

text \<open>The relational operators \<open><\<close> and \<open><=\<close> of the language; \<open>a > b\<close> is \<open>b < a\<close>.\<close>

fun less_number :: "number \<Rightarrow> number \<Rightarrow> bool" where
  "less_number NaN _ = False"
| "less_number _ NaN = False"
| "less_number (Fin a) (Fin b) = (a < b)"
| "less_number PInf _ = False"
| "less_number _ NInf = False"
| "less_number _ _ = True"

fun less_eq_number :: "number \<Rightarrow> number \<Rightarrow> bool" where
  "less_eq_number NaN _ = False"
| "less_eq_number _ NaN = False"
| "less_eq_number (Fin a) (Fin b) = (a \<le> b)"
| "less_eq_number NInf _ = True"
| "less_eq_number _ PInf = True"
| "less_eq_number _ _ = False"

instance ..

end

instance number :: numeral
proof
  fix a b c :: number
  show "a + b + c = a + (b + c)"
    by (cases a; cases b; cases c) simp_all
qed

instance number :: power ..

text \<open>Strict equality \<open>===\<close> on numbers: \<open>NaN\<close> equals nothing, itself included.\<close>

definition strict_eq :: "number \<Rightarrow> number \<Rightarrow> bool" where
  "strict_eq a b = (a \<noteq> NaN \<and> b \<noteq> NaN \<and> a = b)"

text \<open>Truthiness of a number: \<open>0\<close> and \<open>NaN\<close> are falsy.\<close>

definition truthy :: "number \<Rightarrow> bool" where
  "truthy a = (a \<noteq> NaN \<and> a \<noteq> Fin 0)"

definition isFinite :: "number \<Rightarrow> bool" where
  "isFinite a = (case a of Fin _ \<Rightarrow> True | _ \<Rightarrow> False)"

definition isNaN :: "number \<Rightarrow> bool" where
  "isNaN a = (a = NaN)"

definition Number_isInteger :: "number \<Rightarrow> bool" where
  "Number_isInteger a = (case a of Fin x \<Rightarrow> real_of_int \<lfloor>x\<rfloor> = x | _ \<Rightarrow> False)"

definition number_of_nat :: "nat \<Rightarrow> number" where
  "number_of_nat i = Fin (real i)"

text \<open>The remainder operator \<open>%\<close>: the result takes the sign of the dividend.\<close>

definition js_rem :: "number \<Rightarrow> number \<Rightarrow> number" where
  "js_rem a b =
     (case (a, b) of
        (Fin x, Fin y) \<Rightarrow>
          if y = 0 then NaN
          else Fin (x - y * real_of_int (if 0 \<le> x / y then \<lfloor>x / y\<rfloor> else \<lceil>x / y\<rceil>))
      | (Fin x, PInf) \<Rightarrow> Fin x
      | (Fin x, NInf) \<Rightarrow> Fin x
      | _ \<Rightarrow> NaN)"

subsection \<open>The Math object\<close>

definition Math_PI :: number where
  "Math_PI = Fin pi"

definition Math_SQRT2 :: number where
  "Math_SQRT2 = Fin (sqrt 2)"

definition Math_exp :: "number \<Rightarrow> number" where
  "Math_exp a = (case a of NaN \<Rightarrow> NaN | NInf \<Rightarrow> Fin 0 | PInf \<Rightarrow> PInf | Fin x \<Rightarrow> Fin (exp x))"

definition Math_log :: "number \<Rightarrow> number" where
  "Math_log a =
     (case a of NaN \<Rightarrow> NaN | NInf \<Rightarrow> NaN | PInf \<Rightarrow> PInf
      | Fin x \<Rightarrow> if x < 0 then NaN else if x = 0 then NInf else Fin (ln x))"

definition Math_sqrt :: "number \<Rightarrow> number" where
  "Math_sqrt a =
     (case a of NaN \<Rightarrow> NaN | NInf \<Rightarrow> NaN | PInf \<Rightarrow> PInf
      | Fin x \<Rightarrow> if x < 0 then NaN else Fin (sqrt x))"

definition Math_sin :: "number \<Rightarrow> number" where
  "Math_sin a = (case a of Fin x \<Rightarrow> Fin (sin x) | _ \<Rightarrow> NaN)"

definition Math_cos :: "number \<Rightarrow> number" where
  "Math_cos a = (case a of Fin x \<Rightarrow> Fin (cos x) | _ \<Rightarrow> NaN)"

definition Math_abs :: "number \<Rightarrow> number" where
  "Math_abs a = (case a of NaN \<Rightarrow> NaN | NInf \<Rightarrow> PInf | PInf \<Rightarrow> PInf | Fin x \<Rightarrow> Fin \<bar>x\<bar>)"

definition Math_ceil :: "number \<Rightarrow> number" where
  "Math_ceil a = (case a of Fin x \<Rightarrow> Fin (real_of_int \<lceil>x\<rceil>) | _ \<Rightarrow> a)"

definition Math_max :: "number \<Rightarrow> number \<Rightarrow> number" where
  "Math_max a b = (if a = NaN \<or> b = NaN then NaN else if a < b then b else a)"

definition Math_min :: "number \<Rightarrow> number \<Rightarrow> number" where
  "Math_min a b = (if a = NaN \<or> b = NaN then NaN else if b < a then b else a)"

text \<open>
  \<open>Math.pow\<close>, following the case list of the language definition: a zero exponent gives
  \<open>1\<close> for every base, \<open>NaN\<close> included; a negative base needs an integer exponent.
\<close>

definition odd_integer :: "real \<Rightarrow> bool" where
  "odd_integer y = (real_of_int \<lfloor>y\<rfloor> = y \<and> odd \<lfloor>y\<rfloor>)"

definition Math_pow :: "number \<Rightarrow> number \<Rightarrow> number" where
  "Math_pow b e =
     (case e of
        NaN \<Rightarrow> NaN
      | Fin y \<Rightarrow>
          if y = 0 then Fin 1
          else (case b of
                  NaN \<Rightarrow> NaN
                | PInf \<Rightarrow> if 0 < y then PInf else Fin 0
                | NInf \<Rightarrow> if 0 < y then (if odd_integer y then NInf else PInf) else Fin 0
                | Fin x \<Rightarrow>
                    if x = 0 then (if 0 < y then Fin 0 else PInf)
                    else if x < 0 then
                      (if real_of_int \<lfloor>y\<rfloor> = y then Fin (x powi \<lfloor>y\<rfloor>) else NaN)
                    else Fin (x powr y))
      | PInf \<Rightarrow>
          (case b of
             NaN \<Rightarrow> NaN
           | Fin x \<Rightarrow> if 1 < \<bar>x\<bar> then PInf else if \<bar>x\<bar> = 1 then NaN else Fin 0
           | _ \<Rightarrow> PInf)
      | NInf \<Rightarrow>
          (case b of
             NaN \<Rightarrow> NaN
           | Fin x \<Rightarrow> if 1 < \<bar>x\<bar> then Fin 0 else if \<bar>x\<bar> = 1 then NaN else PInf
           | _ \<Rightarrow> Fin 0))"

section \<open>Special functions (mathUtils)\<close>

text \<open>
  None of the functions below contains a \<open>throw\<close>, and every primitive they call is total
  on numbers, so the \<open>try\<close> blocks of the source never reach their \<open>catch\<close>: the model
  is the body of the \<open>try\<close>.
\<close>

subsection \<open>gamma\<close>

text \<open>
  The constants \<open>g\<close> and \<open>c\<close> of \<open>gamma\<close>, and its branch for \<open>z \<ge> 0.5\<close> (taken
  for \<open>NaN\<close> as well): the loop \<open>for (let i = 1; i < g + 2; i++) x += c[i] / (z + i)\<close>
  runs over the fixed index range \<open>1, \<dots>, 8\<close>.
\<close>

definition gamma_g :: nat where
  "gamma_g = 7"

definition gamma_c :: "number list" where
  "gamma_c = [0.99999999999980993, 676.5203681218851, - 1259.1392167224028,
              771.32342877765313, - 176.61502916214059, 12.507343278686905,
              - 0.13857109526572012, 0.0000099843695780195716,
              0.00000015056327351493116]"

definition lanczos :: "number \<Rightarrow> number" where
  "lanczos z0 =
     (let z = z0 - 1;
          x = fold (\<lambda>i x. x + gamma_c ! i / (z + number_of_nat i)) [1 ..< gamma_g + 2]
                (gamma_c ! 0);
          t = z + number_of_nat gamma_g + 0.5
      in Math_sqrt (2 * Math_PI) * Math_pow t (z + 0.5) * Math_exp (- t) * x)"

function gamma :: "number \<Rightarrow> number" where
  "gamma z =
     (if z < 0.5 then Math_PI / (Math_sin (Math_PI * z) * gamma (1 - z))
      else lanczos z)"
  by pat_completeness auto

lemma numeral_number: "(numeral n :: number) = Fin (numeral n)"
proof (induction n)
  case One
  show ?case by (simp add: one_number_def)
next
  case (Bit0 n)
  have "(numeral (num.Bit0 n) :: number) = numeral n + numeral n"
    by (rule numeral_Bit0)
  also have "\<dots> = Fin (numeral n) + Fin (numeral n)"
    by (simp only: Bit0 [symmetric])
  also have "\<dots> = Fin (numeral (num.Bit0 n))"
    by (simp only: plus_number.simps numeral_Bit0)
  finally show ?case .
next
  case (Bit1 n)
  have "(numeral (num.Bit1 n) :: number) = numeral n + numeral n + 1"
    by (rule numeral_Bit1)
  also have "\<dots> = Fin (numeral n) + Fin (numeral n) + Fin 1"
    by (simp only: Bit1 [symmetric] one_number_def)
  also have "\<dots> = Fin (numeral (num.Bit1 n))"
    by (simp only: plus_number.simps numeral_Bit1)
  finally show ?case .
qed

lemma half_number: "(0.5 :: number) = Fin 0.5"
  by (simp add: numeral_number)

lemma reflect_ge_half: "z < (0.5 :: number) \<Longrightarrow> \<not> (1 - z < (0.5 :: number))"
  by (cases z) (simp_all add: half_number one_number_def minus_number_def)

termination gamma
  by (relation "measure (\<lambda>z. if z < 0.5 then 1 else 0)") (simp_all add: reflect_ge_half)

declare gamma.simps [simp del]

text \<open>
  The same body under a budget of nested calls: \<open>gamma_fuel n z\<close> is the value of
  \<open>gamma(z)\<close> when the evaluation needs a call stack of depth at most \<open>n\<close>, and \<open>None\<close>
  when it needs a deeper one.
\<close>

fun gamma_fuel :: "nat \<Rightarrow> number \<Rightarrow> number option" where
  "gamma_fuel 0 z = None"
| "gamma_fuel (Suc n) z =
     (if z < 0.5 then
        (case gamma_fuel n (1 - z) of
           None \<Rightarrow> None
         | Some r \<Rightarrow> Some (Math_PI / (Math_sin (Math_PI * z) * r)))
      else Some (lanczos z))"

text \<open>
  The sum that the loop accumulates at the real argument \<open>z = w + 1\<close>, for the proofs about
  values of \<open>gamma\<close>.
\<close>

definition lanczos_sum :: "real \<Rightarrow> real" where
  "lanczos_sum w =
     0.99999999999980993 + 676.5203681218851 / (w + 1) + - 1259.1392167224028 / (w + 2)
       + 771.32342877765313 / (w + 3) + - 176.61502916214059 / (w + 4)
       + 12.507343278686905 / (w + 5) + - 0.13857109526572012 / (w + 6)
       + 0.0000099843695780195716 / (w + 7) + 0.00000015056327351493116 / (w + 8)"

subsection \<open>logGamma, beta, safeLog, safePow, logFactorial\<close>

definition logGamma :: "number \<Rightarrow> number" where
  "logGamma z =
     (if z \<le> 0 then NaN
      else if z > 50 then
        (z - 0.5) * Math_log z - z + 0.5 * Math_log (2 * Math_PI) + 1 / (12 * z)
      else
        (let gammaValue = gamma z
         in if isFinite gammaValue \<and> gammaValue > 0 then Math_log gammaValue else NaN))"

definition beta :: "number \<Rightarrow> number \<Rightarrow> number" where
  "beta a b =
     (if a \<le> 0 \<or> b \<le> 0 then NaN
      else if a > 50 \<or> b > 50 \<or> (a + b) > 50 then
        Math_exp (logGamma a + logGamma b - logGamma (a + b))
      else
        (let result = gamma a * gamma b / gamma (a + b)
         in if isFinite result then result else NaN))"

definition safeLog :: "number \<Rightarrow> number" where
  "safeLog x = (if x > 0 then Math_log x else NInf)"

definition safePow :: "number \<Rightarrow> number \<Rightarrow> number" where
  "safePow base exponent =
     (if strict_eq base 0 \<and> strict_eq exponent 0 then 1
      else if base < 0 \<and> \<not> strict_eq (js_rem exponent 1) 0 then NaN
      else Math_pow base exponent)"

definition logFactorial :: "number \<Rightarrow> number" where
  "logFactorial n =
     (if n < 0 then NInf
      else if strict_eq n 0 \<or> strict_eq n 1 then 0
      else logGamma (n + 1))"

subsection \<open>besselI0, erfc, normalCDF\<close>

definition besselI0 :: "number \<Rightarrow> number" where
  "besselI0 z =
     (let absZ = Math_abs z
      in if absZ < 3.75 then
           (let t = Math_pow (absZ / 3.75) 2
            in 1 + t * (3.5156229 + t * (3.0899424 + t * (1.2067492 +
                 t * (0.2659732 + t * (0.0360768 + t * 0.0045813))))))
         else
           (let t = 3.75 / absZ
            in Math_exp absZ / Math_sqrt absZ * (0.39894228 + t * (0.01328592 +
                 t * (0.00225319 + t * (- 0.00157565 + t * (0.00916281 +
                 t * (- 0.02057706 + t * (0.02635537 + t * (- 0.01647633 + t * 0.00392377))))))))))"

definition erfc :: "number \<Rightarrow> number" where
  "erfc u =
     (let p = 0.3275911;
          a1 = 0.254829592;
          a2 = - 0.284496736;
          a3 = 1.421413741;
          a4 = - 1.453152027;
          a5 = 1.061405429;
          sign = (if u < 0 then - 1 else (1 :: number));
          z = Math_abs u;
          t = 1 / (1 + p * z);
          poly = (((((a5 * t) + a4) * t) + a3) * t + a2) * t + a1;
          erfZ = 1 - poly * Math_exp (- z * z)
      in if sign \<ge> 0 then 1 - erfZ else 1 + erfZ)"

definition normalCDF :: "number \<Rightarrow> number" where
  "normalCDF z = 0.5 * erfc (- z / Math_SQRT2)"

section \<open>Distribution evaluators\<close>

text \<open>
  Each evaluator is the \<open>pdf\<close> function of one entry of \<open>distributions\<close>, with its
  arguments in the source's order. A parameter whose source name is that of a kernel
  function (\<open>gamma\<close>, \<open>beta\<close>) carries the suffix \<open>_p\<close>.
\<close>

subsection \<open>Continuous distributions\<close>

definition normal_pdf :: "number \<Rightarrow> number \<Rightarrow> number \<Rightarrow> number" where
  "normal_pdf x mu sigma =
     (if sigma \<le> 0 then 0
      else
        (let z = (x - mu) / sigma
         in (1 / (sigma * Math_sqrt (2 * Math_PI))) * Math_exp (- 0.5 * z * z)))"

definition beta_pdf :: "number \<Rightarrow> number \<Rightarrow> number \<Rightarrow> number" where
  "beta_pdf x alpha betaParam =
     (if x < 0 \<or> x > 1 \<or> alpha \<le> 0 \<or> betaParam \<le> 0 then 0
      else if strict_eq x 0 \<or> strict_eq x 1 then
        (if (alpha > 1 \<and> strict_eq x 0) \<or> (betaParam > 1 \<and> strict_eq x 1) then 0
         else if (alpha < 1 \<and> strict_eq x 0) \<or> (betaParam < 1 \<and> strict_eq x 1) then PInf
         else if (strict_eq alpha 1 \<and> strict_eq x 0) \<or> (strict_eq betaParam 1 \<and> strict_eq x 1)
         then
           (let betaValue = beta alpha betaParam
            in if isFinite betaValue \<and> betaValue > 0 then 1 / betaValue else 0)
         else 0)
      else
        (let betaValue = beta alpha betaParam
         in if \<not> isFinite betaValue \<or> betaValue \<le> 0 then 0
            else
              (let term1 = safePow x (alpha - 1);
                   term2 = safePow (1 - x) (betaParam - 1)
               in if \<not> isFinite term1 \<or> \<not> isFinite term2 then 0
                  else
                    (let result = term1 * term2 / betaValue
                     in if isFinite result then result else 0))))"

definition gamma_pdf :: "number \<Rightarrow> number \<Rightarrow> number \<Rightarrow> number" where
  "gamma_pdf x alpha betaParam =
     (if x < 0 \<or> alpha \<le> 0 \<or> betaParam \<le> 0 then 0
      else
        (let gammaValue = gamma alpha
         in (safePow betaParam alpha / gammaValue) * safePow x (alpha - 1)
              * Math_exp (- betaParam * x)))"

definition exponential_pdf :: "number \<Rightarrow> number \<Rightarrow> number" where
  "exponential_pdf x lambda =
     (if x < 0 \<or> lambda \<le> 0 then 0 else lambda * Math_exp (- lambda * x))"

definition uniform_pdf :: "number \<Rightarrow> number \<Rightarrow> number \<Rightarrow> number" where
  "uniform_pdf x a b =
     (if b \<le> a then 0
      else if x < a \<or> x > b then 0
      else 1 / (b - a))"

definition lognormal_pdf :: "number \<Rightarrow> number \<Rightarrow> number \<Rightarrow> number" where
  "lognormal_pdf x mu sigma =
     (if x \<le> 0 \<or> sigma \<le> 0 then 0
      else
        (let logX = safeLog x
         in if \<not> isFinite logX then 0
            else
              (let z = (logX - mu) / sigma
               in (1 / (x * sigma * Math_sqrt (2 * Math_PI))) * Math_exp (- 0.5 * z * z))))"

definition chi2_pdf :: "number \<Rightarrow> number \<Rightarrow> number" where
  "chi2_pdf x k =
     (if x < 0 \<or> k \<le> 0 then 0
      else if strict_eq x 0 \<and> k < 2 then PInf
      else if strict_eq x 0 \<and> strict_eq k 2 then 0.5
      else if strict_eq x 0 then 0
      else
        (let gammaValue = gamma (k / 2)
         in (1 / (safePow 2 (k / 2) * gammaValue)) * safePow x (k / 2 - 1)
              * Math_exp (- x / 2)))"

definition student_pdf :: "number \<Rightarrow> number \<Rightarrow> number" where
  "student_pdf x nu =
     (if nu \<le> 0 then 0
      else
        (let gammaRatio = gamma ((nu + 1) / 2) / gamma (nu / 2);
             denominator = Math_sqrt (nu * Math_PI) * safePow (1 + (x * x) / nu) ((nu + 1) / 2)
         in gammaRatio / denominator))"

subsection \<open>Discrete distributions\<close>

text \<open>
  The coefficient loops of the Binomial and the Negative Binomial evaluator count up to a
  bound that is a number: \<open>for (let i = 0; i < k; i++)\<close>. The counter \<open>i\<close> is a number too.
  It starts at \<open>0\<close> and \<open>i++\<close> adds \<open>1\<close>, which is exact as long as \<open>i < 2\<^sup>5\<^sup>3\<close>; at
  \<open>i = 2\<^sup>5\<^sup>3\<close> the sum \<open>2\<^sup>5\<^sup>3 + 1\<close> is not a double and rounds back to \<open>2\<^sup>5\<^sup>3\<close> (to nearest,
  ties to even), so the counter stays there. Against a bound above \<open>2\<^sup>5\<^sup>3\<close> such a loop
  does not end, so each loop is a partial function whose value \<open>None\<close> stands for not
  returning, and the two evaluators return an option.
\<close>

definition increment :: "nat \<Rightarrow> nat" where
  "increment i = (if i < 2 ^ 53 then i + 1 else i)"

partial_function (option) binomial_loop :: "number \<Rightarrow> number \<Rightarrow> nat \<Rightarrow> number \<Rightarrow> number option" where
  "binomial_loop k n i coeff =
     (if number_of_nat i < k then
        binomial_loop k n (increment i) (coeff * (n - number_of_nat i) / (number_of_nat i + 1))
      else Some coeff)"

definition binomial_pdf :: "number \<Rightarrow> number \<Rightarrow> number \<Rightarrow> number option" where
  "binomial_pdf k n p =
     (if \<not> Number_isInteger k \<or> k < 0 \<or> k > n \<or> n < 0 \<or> p < 0 \<or> p > 1 then Some 0
      else if strict_eq p 0 then Some (if strict_eq k 0 then 1 else 0)
      else if strict_eq p 1 then Some (if strict_eq k n then 1 else 0)
      else
        (case binomial_loop k n 0 1 of
           None \<Rightarrow> None
         | Some coeff \<Rightarrow> Some (coeff * Math_pow p k * Math_pow (1 - p) (n - k))))"

definition poisson_pdf :: "number \<Rightarrow> number \<Rightarrow> number" where
  "poisson_pdf k lambda =
     (if \<not> Number_isInteger k \<or> k < 0 \<or> lambda \<le> 0 then 0
      else
        (let logProb = k * Math_log lambda - lambda - logFactorial k
         in Math_exp logProb))"

definition geometric_pdf :: "number \<Rightarrow> number \<Rightarrow> number" where
  "geometric_pdf k p =
     (if \<not> Number_isInteger k \<or> k < 1 \<or> p \<le> 0 \<or> p > 1 then 0
      else Math_pow (1 - p) (k - 1) * p)"

partial_function (option) negativeBinomial_loop :: "number \<Rightarrow> number \<Rightarrow> nat \<Rightarrow> number \<Rightarrow> number option" where
  "negativeBinomial_loop k r i coeff =
     (if number_of_nat i < r - 1 then
        negativeBinomial_loop k r (increment i)
          (coeff * (k - 1 - number_of_nat i) / (number_of_nat i + 1))
      else Some coeff)"

definition negativeBinomial_pdf :: "number \<Rightarrow> number \<Rightarrow> number \<Rightarrow> number option" where
  "negativeBinomial_pdf k r p =
     (if \<not> Number_isInteger k \<or> k < r \<or> r < 1 \<or> p \<le> 0 \<or> p > 1 then Some 0
      else
        (case negativeBinomial_loop k r 0 1 of
           None \<Rightarrow> None
         | Some coeff \<Rightarrow> Some (coeff * Math_pow p r * Math_pow (1 - p) (k - r))))"

definition bernoulli_pdf :: "number \<Rightarrow> number \<Rightarrow> number" where
  "bernoulli_pdf x p =
     (if \<not> strict_eq x 0 \<and> \<not> strict_eq x 1 then 0
      else if p < 0 \<or> p > 1 then 0
      else if strict_eq x 1 then p else 1 - p)"

definition discreteUniform_pdf :: "number \<Rightarrow> number \<Rightarrow> number \<Rightarrow> number" where
  "discreteUniform_pdf x lower upper =
     (if \<not> Number_isInteger x \<or> x < lower \<or> x > upper \<or> lower > upper then 0
      else 1 / (upper - lower + 1))"

definition hypergeometric_pdf :: "number \<Rightarrow> number \<Rightarrow> number \<Rightarrow> number \<Rightarrow> number" where
  "hypergeometric_pdf x N K n =
     (if \<not> Number_isInteger x \<or> x < 0 \<or> x > n \<or> x > K \<or> (n - x) > (N - K) then 0
      else if N < K \<or> N < n \<or> K < 0 \<or> n < 0 then 0
      else
        (let logCombK = logFactorial K - logFactorial x - logFactorial (K - x);
             logCombNK = logFactorial (N - K) - logFactorial (n - x)
                           - logFactorial (N - K - n + x);
             logCombN = logFactorial N - logFactorial n - logFactorial (N - n)
         in Math_exp (logCombK + logCombNK - logCombN)))"

definition betaBinomial_pdf :: "number \<Rightarrow> number \<Rightarrow> number \<Rightarrow> number \<Rightarrow> number" where
  "betaBinomial_pdf x n alpha beta_param =
     (if \<not> Number_isInteger x \<or> x < 0 \<or> x > n \<or> alpha \<le> 0 \<or> beta_param \<le> 0 then 0
      else
        (let logBinomCoeff = logFactorial n - logFactorial x - logFactorial (n - x);
             logBetaRatio =
               (logGamma (x + alpha) + logGamma (n - x + beta_param)
                  - logGamma (n + alpha + beta_param))
               + (logGamma (alpha + beta_param) - logGamma alpha - logGamma beta_param)
         in Math_exp (logBinomCoeff + logBetaRatio)))"

definition discreteWeibull_pdf :: "number \<Rightarrow> number \<Rightarrow> number \<Rightarrow> number" where
  "discreteWeibull_pdf x q beta_param =
     (if \<not> Number_isInteger x \<or> x < 0 \<or> q \<le> 0 \<or> q \<ge> 1 \<or> beta_param \<le> 0 then 0
      else
        (let x_beta = Math_pow x beta_param;
             x1_beta = Math_pow (x + 1) beta_param
         in if x_beta > 700 \<or> x1_beta > 700 then 0
            else
              (let qx = Math_pow q x_beta;
                   qx1 = Math_pow q x1_beta;
                   result = qx - qx1
               in if isFinite result \<and> result \<ge> 0 then result else 0)))"

subsection \<open>Further continuous distributions\<close>

definition cauchy_pdf :: "number \<Rightarrow> number \<Rightarrow> number \<Rightarrow> number" where
  "cauchy_pdf x x0 gamma_p =
     (if gamma_p \<le> 0 then 0
      else
        (let z = (x - x0) / gamma_p
         in 1 / (Math_PI * gamma_p * (1 + z * z))))"

definition laplace_pdf :: "number \<Rightarrow> number \<Rightarrow> number \<Rightarrow> number" where
  "laplace_pdf x mu b =
     (if b \<le> 0 then 0
      else (1 / (2 * b)) * Math_exp (- Math_abs (x - mu) / b))"

definition logistic_pdf :: "number \<Rightarrow> number \<Rightarrow> number \<Rightarrow> number" where
  "logistic_pdf x mu s =
     (if s \<le> 0 then 0
      else
        (let z = - (x - mu) / s;
             exp_z = Math_exp z
         in exp_z / (s * Math_pow (1 + exp_z) 2)))"

definition gumbel_pdf :: "number \<Rightarrow> number \<Rightarrow> number \<Rightarrow> number" where
  "gumbel_pdf x mu beta_p =
     (if beta_p \<le> 0 then 0
      else
        (let z = (x - mu) / beta_p
         in (1 / beta_p) * Math_exp (- z - Math_exp (- z))))"

definition weibull_pdf :: "number \<Rightarrow> number \<Rightarrow> number \<Rightarrow> number" where
  "weibull_pdf x alpha beta_p =
     (if alpha \<le> 0 \<or> beta_p \<le> 0 \<or> x < 0 then 0
      else
        (let xb = x / beta_p
         in (alpha / beta_p) * Math_pow xb (alpha - 1) * Math_exp (- Math_pow xb alpha)))"

definition pareto_pdf :: "number \<Rightarrow> number \<Rightarrow> number \<Rightarrow> number" where
  "pareto_pdf x alpha m =
     (if alpha \<le> 0 \<or> m \<le> 0 \<or> x < m then 0
      else alpha * Math_pow m alpha / Math_pow x (alpha + 1))"

definition halfNormal_pdf :: "number \<Rightarrow> number \<Rightarrow> number" where
  "halfNormal_pdf x sigma =
     (if sigma \<le> 0 \<or> x < 0 then 0
      else Math_sqrt (2 / (Math_PI * sigma * sigma))
             * Math_exp (- (x * x) / (2 * sigma * sigma)))"

definition halfCauchy_pdf :: "number \<Rightarrow> number \<Rightarrow> number" where
  "halfCauchy_pdf x beta_p =
     (if beta_p \<le> 0 \<or> x < 0 then 0
      else
        (let z = x / beta_p
         in 2 / (Math_PI * beta_p * (1 + z * z))))"

definition inverseGamma_pdf :: "number \<Rightarrow> number \<Rightarrow> number \<Rightarrow> number" where
  "inverseGamma_pdf x alpha beta_p =
     (if alpha \<le> 0 \<or> beta_p \<le> 0 \<or> x \<le> 0 then 0
      else Math_pow beta_p alpha / gamma alpha * Math_pow x (- alpha - 1)
             * Math_exp (- beta_p / x))"

definition triangular_pdf :: "number \<Rightarrow> number \<Rightarrow> number \<Rightarrow> number \<Rightarrow> number" where
  "triangular_pdf x lower c upper =
     (if lower \<ge> c \<or> c \<ge> upper \<or> x < lower \<or> x > upper then 0
      else if x < c then 2 * (x - lower) / ((upper - lower) * (c - lower))
      else if strict_eq x c then 2 / (upper - lower)
      else 2 * (upper - x) / ((upper - lower) * (upper - c)))"

definition kumaraswamy_pdf :: "number \<Rightarrow> number \<Rightarrow> number \<Rightarrow> number" where
  "kumaraswamy_pdf x a b =
     (if a \<le> 0 \<or> b \<le> 0 \<or> x < 0 \<or> x > 1 then 0
      else a * b * Math_pow x (a - 1) * Math_pow (1 - Math_pow x a) (b - 1))"

definition asymmetricLaplace_pdf :: "number \<Rightarrow> number \<Rightarrow> number \<Rightarrow> number \<Rightarrow> number" where
  "asymmetricLaplace_pdf x mu b kappa =
     (if b \<le> 0 \<or> kappa \<le> 0 then 0
      else
        (let sign = (if x \<ge> mu then 1 else - (1 :: number));
             kappaSign = (if sign > 0 then kappa else 1 / kappa);
             normalization = kappa / (b * (1 + kappa * kappa))
         in normalization * Math_exp (- Math_abs (x - mu) * kappaSign / b)))"

definition skewNormal_pdf :: "number \<Rightarrow> number \<Rightarrow> number \<Rightarrow> number \<Rightarrow> number" where
  "skewNormal_pdf x mu sigma alpha =
     (if sigma \<le> 0 then 0
      else
        (let z = (x - mu) / sigma;
             phi = (1 / Math_sqrt (2 * Math_PI)) * Math_exp (- 0.5 * z * z);
             Phi_t = normalCDF (alpha * z)
         in (2 / sigma) * phi * Phi_t))"

definition halfStudentT_pdf :: "number \<Rightarrow> number \<Rightarrow> number \<Rightarrow> number" where
  "halfStudentT_pdf x nu sigma =
     (if nu \<le> 0 \<or> sigma \<le> 0 \<or> x < 0 then 0
      else
        (let t = x / sigma;
             gammaRatio = gamma ((nu + 1) / 2) / gamma (nu / 2)
         in (2 * gammaRatio) / (Math_sqrt (nu * Math_PI) * sigma)
              * Math_pow (1 + t * t / nu) (- (nu + 1) / 2)))"

definition logitNormal_pdf :: "number \<Rightarrow> number \<Rightarrow> number \<Rightarrow> number" where
  "logitNormal_pdf x mu tau =
     (if tau \<le> 0 \<or> x \<le> 0 \<or> x \<ge> 1 then 0
      else
        (let logit_x = Math_log (x / (1 - x));
             norm_factor = 1 / (x * (1 - x)) * Math_sqrt (tau / (2 * Math_PI))
         in norm_factor * Math_exp (- tau / 2 * Math_pow (logit_x - mu) 2)))"

definition wald_pdf :: "number \<Rightarrow> number \<Rightarrow> number \<Rightarrow> number" where
  "wald_pdf x mu lam =
     (if mu \<le> 0 \<or> lam \<le> 0 \<or> x \<le> 0 then 0
      else
        (let sqrt_term = Math_sqrt (lam / (2 * Math_PI * x * x * x));
             exp_term = Math_exp (- lam * Math_pow (x - mu) 2 / (2 * mu * mu * x))
         in sqrt_term * exp_term))"

definition moyal_pdf :: "number \<Rightarrow> number \<Rightarrow> number \<Rightarrow> number" where
  "moyal_pdf x mu sigma =
     (if sigma \<le> 0 then 0
      else
        (let z = (x - mu) / sigma
         in (1 / (Math_sqrt (2 * Math_PI) * sigma)) * Math_exp (- 0.5 * (z + Math_exp (- z)))))"

definition exGaussian_pdf :: "number \<Rightarrow> number \<Rightarrow> number \<Rightarrow> number \<Rightarrow> number" where
  "exGaussian_pdf x mu sigma lam =
     (if sigma \<le> 0 \<or> lam \<le> 0 then 0
      else
        (let exp_part = lam / 2 * Math_exp (lam / 2 * (2 * mu + lam * sigma * sigma - 2 * x));
             u = (mu + lam * sigma * sigma - x) / (Math_sqrt 2 * sigma)
         in exp_part * erfc u))"

definition vonMises_pdf :: "number \<Rightarrow> number \<Rightarrow> number \<Rightarrow> number" where
  "vonMises_pdf x mu kappa =
     (if kappa \<le> 0 \<or> x < - Math_PI \<or> x > Math_PI then 0
      else Math_exp (kappa * Math_cos (x - mu)) / (2 * Math_PI * besselI0 kappa))"

definition rice_pdf :: "number \<Rightarrow> number \<Rightarrow> number \<Rightarrow> number" where
  "rice_pdf x nu sigma =
     (if sigma \<le> 0 \<or> nu < 0 \<or> x < 0 then 0
      else
        (let sigma2 = sigma * sigma;
             z = x * nu / sigma2
         in (x / sigma2) * Math_exp (- (x * x + nu * nu) / (2 * sigma2)) * besselI0 z))"

definition truncatedNormal_pdf ::
  "number \<Rightarrow> number \<Rightarrow> number \<Rightarrow> number \<Rightarrow> number \<Rightarrow> number" where
  "truncatedNormal_pdf x mu sigma lower upper =
     (if sigma \<le> 0 \<or> x < lower \<or> x > upper \<or> lower \<ge> upper then 0
      else
        (let z = (x - mu) / sigma;
             phi = (1 / Math_sqrt (2 * Math_PI)) * Math_exp (- 0.5 * z * z);
             alpha = (lower - mu) / sigma;
             beta_v = (upper - mu) / sigma;
             Z = normalCDF beta_v - normalCDF alpha
         in phi / (sigma * Z)))"

section \<open>Range estimators\<close>

text \<open>
  A range estimator receives the parameter object. The object is a finite map from
  parameter names to numbers; reading a key the object lacks gives \<open>undefined\<close>, here the
  value \<open>None\<close>. Each estimator reads its parameters through \<open>params.key || fallback\<close>, which
  yields the fallback when the value is falsy: \<open>undefined\<close>, \<open>0\<close> or \<open>NaN\<close>.
\<close>

type_synonym params = "string \<Rightarrow> number option"

record range =
  min_x :: number
  max_x :: number

text \<open>The width of a range is \<open>max - min\<close>.\<close>

definition width :: "range \<Rightarrow> number" where
  "width r = max_x r - min_x r"

definition js_or :: "number option \<Rightarrow> number \<Rightarrow> number" where
  "js_or v fallback = (case v of None \<Rightarrow> fallback | Some a \<Rightarrow> if truthy a then a else fallback)"

definition normal_rangeCalculator :: "params \<Rightarrow> range" where
  "normal_rangeCalculator params =
     (let mu = js_or (params ''mu'') 0;
          sigma = js_or (params ''sigma'') 1
      in \<lparr>min_x = mu - 4 * sigma, max_x = mu + 4 * sigma\<rparr>)"













definition discreteUniform_rangeCalculator :: "params \<Rightarrow> range" where
  "discreteUniform_rangeCalculator params =
     (let lower = js_or (params ''lower'') 1;
          upper = js_or (params ''upper'') 6
      in \<lparr>min_x = lower, max_x = upper\<rparr>)"

definition hypergeometric_rangeCalculator :: "params \<Rightarrow> range" where
  "hypergeometric_rangeCalculator params =
     (let N = js_or (params ''N'') 50;
          K = js_or (params ''K'') 20;
          n = js_or (params ''n'') 10;
          min = Math_max 0 (n - (N - K));
          max = Math_min n K
      in \<lparr>min_x = min, max_x = max\<rparr>)"












definition inverseGamma_rangeCalculator :: "params \<Rightarrow> range" where
  "inverseGamma_rangeCalculator params =
     (let alpha = js_or (params ''alpha'') 2;
          beta_p = js_or (params ''beta'') 1;
          mean = (if alpha > 1 then beta_p / (alpha - 1) else beta_p)
      in \<lparr>min_x = 0.001, max_x = mean * 5\<rparr>)"















section \<open>Arithmetic on numbers\<close>

lemma power_number: "(Fin a) ^ n = Fin (a ^ n)"
  by (induction n) (simp_all add: one_number_def)

lemmas num_simps = zero_number_def one_number_def numeral_number minus_number_def power_number

section \<open>The coefficient loops\<close>

text \<open>
  A coefficient loop returns when its bound is at most \<open>2\<^sup>5\<^sup>3\<close> (or is \<open>NaN\<close>), and does not
  return when its bound is above \<open>2\<^sup>5\<^sup>3\<close>, where the counter stays.
\<close>

lemma increment_le: "i \<le> 2 ^ 53 \<Longrightarrow> increment i \<le> 2 ^ 53"
  by (simp add: increment_def)

lemma increment_small: "i < 1000 \<Longrightarrow> increment i = Suc i"
  by (simp add: increment_def)

lemma counter_below:
  assumes "number_of_nat i < k" "\<not> 2 ^ 53 < k"
  shows "i < 2 ^ 53"
proof -
  from assms obtain x where k: "k = Fin x" "real i < x" "x \<le> 2 ^ 53"
    by (cases k) (auto simp add: number_of_nat_def num_simps)
  then have "real i < real (2 ^ 53)" by simp
  then show ?thesis by (simp only: of_nat_less_iff)
qed

lemma counter_less_bound:
  assumes "2 ^ 53 < k" "i \<le> 2 ^ 53"
  shows "number_of_nat i < k"
proof -
  have "real i \<le> real (2 ^ 53)" using assms(2) by (simp only: of_nat_le_iff)
  then show ?thesis using assms(1)
    by (cases k) (auto simp add: number_of_nat_def num_simps)
qed

lemma binomial_loop_step:
  "number_of_nat i < k \<Longrightarrow>
   binomial_loop k n i coeff =
     binomial_loop k n (increment i) (coeff * (n - number_of_nat i) / (number_of_nat i + 1))"
  by (subst binomial_loop.simps) simp

lemma binomial_loop_stop: "\<not> number_of_nat i < k \<Longrightarrow> binomial_loop k n i coeff = Some coeff"
  by (subst binomial_loop.simps) simp

lemma binomial_loop_returns:
  assumes "\<not> 2 ^ 53 < k"
  shows "\<exists>r. binomial_loop k n i coeff = Some r"
proof (induction "2 ^ 53 - i" arbitrary: i coeff rule: less_induct)
  case less
  show ?case
  proof (cases "number_of_nat i < k")
    case True
    then have "i < 2 ^ 53" using assms by (rule counter_below)
    then have "2 ^ 53 - increment i < 2 ^ 53 - i"
      by (simp add: increment_def)
    from less [OF this] show ?thesis
      by (simp add: binomial_loop_step [OF True])
  next
    case False
    then show ?thesis by (simp add: binomial_loop_stop)
  qed
qed

lemma binomial_loop_endless:
  assumes "2 ^ 53 < k" "i \<le> 2 ^ 53"
  shows "binomial_loop k n i coeff = None"
proof -
  have "\<not> (2 ^ 53 < k \<and> i \<le> 2 ^ 53)" if r: "binomial_loop k n i coeff = Some y" for y
  proof (rule binomial_loop.raw_induct
      [where P = "\<lambda>k n i coeff y. \<not> (2 ^ 53 < k \<and> i \<le> 2 ^ 53)", OF _ r])
    fix loop :: "number \<Rightarrow> number \<Rightarrow> nat \<Rightarrow> number \<Rightarrow> number option"
    fix k n :: number and i :: nat and coeff y :: number
    assume ih: "\<And>k n i coeff y. loop k n i coeff = Some y \<Longrightarrow> \<not> (2 ^ 53 < k \<and> i \<le> 2 ^ 53)"
      and body: "(if number_of_nat i < k
                  then loop k n (increment i)
                         (coeff * (n - number_of_nat i) / (number_of_nat i + 1))
                  else Some coeff) = Some y"
    show "\<not> (2 ^ 53 < k \<and> i \<le> 2 ^ 53)"
    proof
      assume a: "2 ^ 53 < k \<and> i \<le> 2 ^ 53"
      then have "number_of_nat i < k" by (simp add: counter_less_bound)
      with body have "loop k n (increment i)
          (coeff * (n - number_of_nat i) / (number_of_nat i + 1)) = Some y"
        by simp
      from ih [OF this] a increment_le [of i] show False by simp
    qed
  qed
  with assms show ?thesis by (cases "binomial_loop k n i coeff") auto
qed

lemma negativeBinomial_loop_step:
  "number_of_nat i < r - 1 \<Longrightarrow>
   negativeBinomial_loop k r i coeff =
     negativeBinomial_loop k r (increment i)
       (coeff * (k - 1 - number_of_nat i) / (number_of_nat i + 1))"
  by (subst negativeBinomial_loop.simps) simp

lemma negativeBinomial_loop_stop:
  "\<not> number_of_nat i < r - 1 \<Longrightarrow> negativeBinomial_loop k r i coeff = Some coeff"
  by (subst negativeBinomial_loop.simps) simp

lemma negativeBinomial_loop_returns:
  assumes "\<not> 2 ^ 53 < r - 1"
  shows "\<exists>c. negativeBinomial_loop k r i coeff = Some c"
proof (induction "2 ^ 53 - i" arbitrary: i coeff rule: less_induct)
  case less
  show ?case
  proof (cases "number_of_nat i < r - 1")
    case True
    then have "i < 2 ^ 53" using assms by (rule counter_below)
    then have "2 ^ 53 - increment i < 2 ^ 53 - i"
      by (simp add: increment_def)
    from less [OF this] show ?thesis
      by (simp add: negativeBinomial_loop_step [OF True])
  next
    case False
    then show ?thesis by (simp add: negativeBinomial_loop_stop)
  qed
qed

text \<open>
  The Binomial evaluator does not return exactly when its arguments pass the guards and
  the evaluation point is above \<open>2\<^sup>5\<^sup>3\<close>; the Negative Binomial evaluator returns when
  \<open>r - 1\<close> is at most \<open>2\<^sup>5\<^sup>3\<close>.
\<close>

lemma binomial_pdf_endless:
  "(binomial_pdf k n p = None) =
     (2 ^ 53 < k \<and> \<not> (\<not> Number_isInteger k \<or> k < 0 \<or> k > n \<or> n < 0 \<or> p < 0 \<or> p > 1)
      \<and> \<not> strict_eq p 0 \<and> \<not> strict_eq p 1)"
proof (cases "2 ^ 53 < k")
  case True
  then have "binomial_loop k n 0 1 = None"
    by (intro binomial_loop_endless) simp_all
  with True show ?thesis by (simp add: binomial_pdf_def)
next
  case False
  then obtain c where "binomial_loop k n 0 1 = Some c"
    using binomial_loop_returns [of k n 0 1] by blast
  with False show ?thesis by (simp add: binomial_pdf_def)
qed

lemma negativeBinomial_pdf_returns:
  "\<not> 2 ^ 53 < r - 1 \<Longrightarrow> negativeBinomial_pdf k r p \<noteq> None"
  using negativeBinomial_loop_returns [of r k 0 1] by (auto simp add: negativeBinomial_pdf_def)

section \<open>NaN arguments\<close>

text \<open>
  \<open>NaN\<close> is absorbing in the arithmetic and in the \<open>Math\<close> functions, apart from
  \<open>Math.pow\<close> with exponent \<open>0\<close>, and in the kernel functions \<open>gamma\<close>, \<open>logGamma\<close>, \<open>beta\<close>,
  \<open>logFactorial\<close>, \<open>besselI0\<close>, \<open>erfc\<close> and \<open>normalCDF\<close>; every comparison and every test on
  \<open>NaN\<close> is false, and \<open>safeLog(NaN)\<close> is \<open>-Infinity\<close>.
\<close>

lemma NaN_plus: "a + NaN = NaN" "NaN + a = NaN"
  by (cases a; simp)+

lemma NaN_times: "a * NaN = NaN" "NaN * a = NaN"
  by (cases a; simp)+

lemma NaN_divide: "a / NaN = NaN" "NaN / a = NaN"
  by (cases a; simp)+

lemma NaN_minus: "a - NaN = NaN" "NaN - a = NaN" "- NaN = NaN"
  by (simp_all add: minus_number_def NaN_plus)

lemma NaN_less: "\<not> a < NaN" "\<not> NaN < a" "\<not> a \<le> NaN" "\<not> NaN \<le> a"
  by (cases a; simp)+

lemma NaN_consts:
  "(0 :: number) \<noteq> NaN" "(1 :: number) \<noteq> NaN" "(numeral v :: number) \<noteq> NaN"
  "NaN \<noteq> (0 :: number)" "NaN \<noteq> (1 :: number)" "NaN \<noteq> (numeral v :: number)"
  by (simp_all add: num_simps)

lemma NaN_Math:
  "Math_exp NaN = NaN" "Math_log NaN = NaN" "Math_sqrt NaN = NaN" "Math_abs NaN = NaN"
  "Math_sin NaN = NaN" "Math_cos NaN = NaN" "Math_pow b NaN = NaN"
  "Math_max a NaN = NaN" "Math_max NaN a = NaN" "Math_min a NaN = NaN" "Math_min NaN a = NaN"
  by (simp_all add: Math_exp_def Math_log_def Math_sqrt_def Math_abs_def Math_sin_def
      Math_cos_def Math_pow_def Math_max_def Math_min_def)

lemma NaN_pow_base: "Math_pow NaN e = (if e = 0 then 1 else NaN)"
  by (cases e) (simp_all add: Math_pow_def num_simps)

lemma NaN_tests:
  "\<not> strict_eq NaN a" "\<not> strict_eq a NaN" "\<not> isFinite NaN" "\<not> Number_isInteger NaN"
  by (simp_all add: strict_eq_def isFinite_def Number_isInteger_def)

lemma NaN_rem: "js_rem NaN a = NaN" "js_rem a NaN = NaN"
  by (cases a; simp add: js_rem_def)+

lemmas NaN_arith =
  NaN_plus NaN_times NaN_divide NaN_minus NaN_less NaN_consts NaN_Math NaN_tests NaN_rem

lemma lanczos_indices: "[1 ..< 7 + 2] = [1, 2, 3, 4, 5, 6, 7, 8 :: nat]"
  by code_simp

lemma NaN_lanczos: "lanczos NaN = NaN"
  unfolding lanczos_def gamma_g_def lanczos_indices by (simp add: Let_def NaN_arith)

lemma NaN_gamma: "gamma NaN = NaN"
  by (subst gamma.simps) (simp add: NaN_arith NaN_lanczos)

lemma NaN_logGamma: "logGamma NaN = NaN"
  by (simp add: logGamma_def Let_def NaN_arith NaN_gamma)

lemma NaN_beta: "beta NaN b = NaN" "beta a NaN = NaN"
  by (simp_all add: beta_def Let_def NaN_arith NaN_gamma NaN_logGamma)

lemma NaN_safeLog: "safeLog NaN = NInf"
  by (simp add: safeLog_def NaN_arith)

lemma NaN_safePow: "safePow b NaN = NaN" "safePow NaN e = (if e = 0 then 1 else NaN)"
  by (simp_all add: safePow_def NaN_pow_base NaN_arith)

lemma NaN_logFactorial: "logFactorial NaN = NaN"
  by (simp add: logFactorial_def NaN_arith NaN_logGamma)

lemma NaN_besselI0: "besselI0 NaN = NaN"
  by (simp add: besselI0_def Let_def NaN_arith)

lemma NaN_erfc: "erfc NaN = NaN"
  by (simp add: erfc_def Let_def num_simps NaN_arith)

lemma NaN_normalCDF: "normalCDF NaN = NaN"
  by (simp add: normalCDF_def NaN_arith NaN_erfc)

lemmas NaN_simps =
  NaN_arith NaN_pow_base NaN_lanczos NaN_gamma NaN_logGamma NaN_beta NaN_safeLog NaN_safePow
  NaN_logFactorial NaN_besselI0 NaN_erfc NaN_normalCDF

text \<open>
  Propagation for one evaluator at a time: some argument is \<open>NaN\<close> and no guard of the
  evaluator returns before the argument is used.
\<close>

lemma NaN_normal_pdf:
  "(x = NaN \<or> mu = NaN \<or> sigma = NaN) \<and> \<not> (sigma \<le> 0)
   \<Longrightarrow> normal_pdf x mu sigma = NaN"
  by (cases x; cases mu; cases sigma)
    (auto simp add: normal_pdf_def Let_def NaN_simps num_simps strict_eq_def isFinite_def)

lemma NaN_gamma_pdf:
  "(x = NaN \<or> alpha = NaN \<or> betaParam = NaN)
   \<and> \<not> (x < 0 \<or> alpha \<le> 0 \<or> betaParam \<le> 0)
   \<Longrightarrow> gamma_pdf x alpha betaParam = NaN"
  by (cases x; cases alpha; cases betaParam)
    (auto simp add: gamma_pdf_def Let_def NaN_simps num_simps strict_eq_def isFinite_def)

lemma NaN_exponential_pdf:
  "(x = NaN \<or> lambda = NaN) \<and> \<not> (x < 0 \<or> lambda \<le> 0)
   \<Longrightarrow> exponential_pdf x lambda = NaN"
  by (cases x; cases lambda)
    (auto simp add: exponential_pdf_def Let_def NaN_simps num_simps strict_eq_def isFinite_def)

lemma NaN_uniform_pdf:
  "(a = NaN \<or> b = NaN) \<and> \<not> (b \<le> a) \<and> \<not> (x < a \<or> x > b)
   \<Longrightarrow> uniform_pdf x a b = NaN"
  by (cases x; cases a; cases b)
    (auto simp add: uniform_pdf_def Let_def NaN_simps num_simps strict_eq_def isFinite_def)

lemma NaN_lognormal_pdf:
  "(mu = NaN \<or> sigma = NaN) \<and> \<not> (x \<le> 0 \<or> sigma \<le> 0)
   \<and> isFinite (safeLog x)
   \<Longrightarrow> lognormal_pdf x mu sigma = NaN"
  by (cases x; cases mu; cases sigma)
    (auto simp add: lognormal_pdf_def Let_def NaN_simps num_simps strict_eq_def isFinite_def)

lemma NaN_chi2_pdf:
  "(x = NaN \<or> k = NaN) \<and> \<not> (x < 0 \<or> k \<le> 0) \<and> \<not> strict_eq x 0
   \<Longrightarrow> chi2_pdf x k = NaN"
  by (cases x; cases k)
    (auto simp add: chi2_pdf_def Let_def NaN_simps num_simps strict_eq_def isFinite_def)

lemma NaN_student_pdf:
  "(x = NaN \<or> nu = NaN) \<and> \<not> (nu \<le> 0)
   \<Longrightarrow> student_pdf x nu = NaN"
  by (cases x; cases nu)
    (auto simp add: student_pdf_def Let_def NaN_simps num_simps strict_eq_def isFinite_def)

lemma NaN_poisson_pdf:
  "lambda = NaN \<and> \<not> (\<not> Number_isInteger x \<or> x < 0 \<or> lambda \<le> 0)
   \<Longrightarrow> poisson_pdf x lambda = NaN"
  by (cases x; cases lambda)
    (auto simp add: poisson_pdf_def Let_def NaN_simps num_simps strict_eq_def isFinite_def)

lemma NaN_geometric_pdf:
  "p = NaN \<and> \<not> (\<not> Number_isInteger x \<or> x < 1 \<or> p \<le> 0 \<or> p > 1)
   \<Longrightarrow> geometric_pdf x p = NaN"
  by (cases x; cases p)
    (auto simp add: geometric_pdf_def Let_def NaN_simps num_simps strict_eq_def isFinite_def)

lemma NaN_bernoulli_pdf:
  "p = NaN \<and> \<not> (\<not> strict_eq x 0 \<and> \<not> strict_eq x 1)
   \<Longrightarrow> bernoulli_pdf x p = NaN"
  by (cases x; cases p)
    (auto simp add: bernoulli_pdf_def Let_def NaN_simps num_simps strict_eq_def isFinite_def)

lemma NaN_discreteUniform_pdf:
  "(lower = NaN \<or> upper = NaN)
   \<and> \<not> (\<not> Number_isInteger x \<or> x < lower \<or> x > upper \<or> lower > upper)
   \<Longrightarrow> discreteUniform_pdf x lower upper = NaN"
  by (cases x; cases lower; cases upper)
    (auto simp add: discreteUniform_pdf_def Let_def NaN_simps num_simps strict_eq_def isFinite_def)

lemma NaN_hypergeometric_pdf:
  "(N = NaN \<or> K = NaN \<or> n = NaN)
   \<and> \<not> (\<not> Number_isInteger x \<or> x < 0 \<or> x > n \<or> x > K \<or> (n - x) > (N - K))
   \<and> \<not> (N < K \<or> N < n \<or> K < 0 \<or> n < 0)
   \<Longrightarrow> hypergeometric_pdf x N K n = NaN"
  by (cases x; cases N; cases K; cases n)
    (auto simp add: hypergeometric_pdf_def Let_def NaN_simps num_simps strict_eq_def isFinite_def)

lemma NaN_betaBinomial_pdf:
  "(n = NaN \<or> alpha = NaN \<or> beta_p = NaN)
   \<and> \<not> (\<not> Number_isInteger x \<or> x < 0 \<or> x > n \<or> alpha \<le> 0 \<or> beta_p \<le> 0)
   \<Longrightarrow> betaBinomial_pdf x n alpha beta_p = NaN"
  by (cases x; cases n; cases alpha; cases beta_p)
    (auto simp add: betaBinomial_pdf_def Let_def NaN_simps num_simps strict_eq_def isFinite_def)

lemma NaN_cauchy_pdf:
  "(x = NaN \<or> x_loc = NaN \<or> gamma_p = NaN) \<and> \<not> (gamma_p \<le> 0)
   \<Longrightarrow> cauchy_pdf x x_loc gamma_p = NaN"
  by (cases x; cases x_loc; cases gamma_p)
    (auto simp add: cauchy_pdf_def Let_def NaN_simps num_simps strict_eq_def isFinite_def)

lemma NaN_laplace_pdf:
  "(x = NaN \<or> mu = NaN \<or> b = NaN) \<and> \<not> (b \<le> 0)
   \<Longrightarrow> laplace_pdf x mu b = NaN"
  by (cases x; cases mu; cases b)
    (auto simp add: laplace_pdf_def Let_def NaN_simps num_simps strict_eq_def isFinite_def)

lemma NaN_logistic_pdf:
  "(x = NaN \<or> mu = NaN \<or> s = NaN) \<and> \<not> (s \<le> 0)
   \<Longrightarrow> logistic_pdf x mu s = NaN"
  by (cases x; cases mu; cases s)
    (auto simp add: logistic_pdf_def Let_def NaN_simps num_simps strict_eq_def isFinite_def)

lemma NaN_gumbel_pdf:
  "(x = NaN \<or> mu = NaN \<or> beta_p = NaN) \<and> \<not> (beta_p \<le> 0)
   \<Longrightarrow> gumbel_pdf x mu beta_p = NaN"
  by (cases x; cases mu; cases beta_p)
    (auto simp add: gumbel_pdf_def Let_def NaN_simps num_simps strict_eq_def isFinite_def)

lemma NaN_weibull_pdf:
  "(x = NaN \<or> alpha = NaN \<or> beta_p = NaN)
   \<and> \<not> (alpha \<le> 0 \<or> beta_p \<le> 0 \<or> x < 0)
   \<Longrightarrow> weibull_pdf x alpha beta_p = NaN"
  by (cases x; cases alpha; cases beta_p)
    (auto simp add: weibull_pdf_def Let_def NaN_simps num_simps strict_eq_def isFinite_def)

lemma NaN_pareto_pdf:
  "(x = NaN \<or> alpha = NaN \<or> m = NaN)
   \<and> \<not> (alpha \<le> 0 \<or> m \<le> 0 \<or> x < m)
   \<Longrightarrow> pareto_pdf x alpha m = NaN"
  by (cases x; cases alpha; cases m)
    (auto simp add: pareto_pdf_def Let_def NaN_simps num_simps strict_eq_def isFinite_def)

lemma NaN_halfNormal_pdf:
  "(x = NaN \<or> sigma = NaN) \<and> \<not> (sigma \<le> 0 \<or> x < 0)
   \<Longrightarrow> halfNormal_pdf x sigma = NaN"
  by (cases x; cases sigma)
    (auto simp add: halfNormal_pdf_def Let_def NaN_simps num_simps strict_eq_def isFinite_def)

lemma NaN_halfCauchy_pdf:
  "(x = NaN \<or> beta_p = NaN) \<and> \<not> (beta_p \<le> 0 \<or> x < 0)
   \<Longrightarrow> halfCauchy_pdf x beta_p = NaN"
  by (cases x; cases beta_p)
    (auto simp add: halfCauchy_pdf_def Let_def NaN_simps num_simps strict_eq_def isFinite_def)

lemma NaN_inverseGamma_pdf:
  "(x = NaN \<or> alpha = NaN \<or> beta_p = NaN)
   \<and> \<not> (alpha \<le> 0 \<or> beta_p \<le> 0 \<or> x \<le> 0)
   \<Longrightarrow> inverseGamma_pdf x alpha beta_p = NaN"
  by (cases x; cases alpha; cases beta_p)
    (auto simp add: inverseGamma_pdf_def Let_def NaN_simps num_simps strict_eq_def isFinite_def)

lemma NaN_triangular_pdf:
  "(x = NaN \<or> lower = NaN \<or> c = NaN \<or> upper = NaN)
   \<and> \<not> (lower \<ge> c \<or> c \<ge> upper \<or> x < lower \<or> x > upper)
   \<Longrightarrow> triangular_pdf x lower c upper = NaN"
  by (cases x; cases lower; cases c; cases upper)
    (auto simp add: triangular_pdf_def Let_def NaN_simps num_simps strict_eq_def isFinite_def)

lemma NaN_kumaraswamy_pdf:
  "(x = NaN \<and> \<not> (a = 1 \<and> b = 1) \<or> a = NaN \<or> b = NaN)
   \<and> \<not> (a \<le> 0 \<or> b \<le> 0 \<or> x < 0 \<or> x > 1)
   \<Longrightarrow> kumaraswamy_pdf x a b = NaN"
  by (cases x; cases a; cases b)
    (auto simp add: kumaraswamy_pdf_def Let_def NaN_simps num_simps strict_eq_def isFinite_def)

lemma NaN_asymmetricLaplace_pdf:
  "(x = NaN \<or> mu = NaN \<or> b = NaN \<or> kappa = NaN)
   \<and> \<not> (b \<le> 0 \<or> kappa \<le> 0)
   \<Longrightarrow> asymmetricLaplace_pdf x mu b kappa = NaN"
  by (cases x; cases mu; cases b; cases kappa)
    (auto simp add: asymmetricLaplace_pdf_def Let_def NaN_simps num_simps strict_eq_def isFinite_def)

lemma NaN_skewNormal_pdf:
  "(x = NaN \<or> mu = NaN \<or> sigma = NaN \<or> alpha = NaN) \<and> \<not> (sigma \<le> 0)
   \<Longrightarrow> skewNormal_pdf x mu sigma alpha = NaN"
  by (cases x; cases mu; cases sigma; cases alpha)
    (auto simp add: skewNormal_pdf_def Let_def NaN_simps num_simps strict_eq_def isFinite_def)

lemma NaN_halfStudentT_pdf:
  "(x = NaN \<or> nu = NaN \<or> sigma = NaN)
   \<and> \<not> (nu \<le> 0 \<or> sigma \<le> 0 \<or> x < 0)
   \<Longrightarrow> halfStudentT_pdf x nu sigma = NaN"
  by (cases x; cases nu; cases sigma)
    (auto simp add: halfStudentT_pdf_def Let_def NaN_simps num_simps strict_eq_def isFinite_def)

lemma NaN_logitNormal_pdf:
  "(x = NaN \<or> mu = NaN \<or> tau = NaN)
   \<and> \<not> (tau \<le> 0 \<or> x \<le> 0 \<or> x \<ge> 1)
   \<Longrightarrow> logitNormal_pdf x mu tau = NaN"
  by (cases x; cases mu; cases tau)
    (auto simp add: logitNormal_pdf_def Let_def NaN_simps num_simps strict_eq_def isFinite_def)

lemma NaN_wald_pdf:
  "(x = NaN \<or> mu = NaN \<or> lam = NaN)
   \<and> \<not> (mu \<le> 0 \<or> lam \<le> 0 \<or> x \<le> 0)
   \<Longrightarrow> wald_pdf x mu lam = NaN"
  by (cases x; cases mu; cases lam)
    (auto simp add: wald_pdf_def Let_def NaN_simps num_simps strict_eq_def isFinite_def)

lemma NaN_moyal_pdf:
  "(x = NaN \<or> mu = NaN \<or> sigma = NaN) \<and> \<not> (sigma \<le> 0)
   \<Longrightarrow> moyal_pdf x mu sigma = NaN"
  by (cases x; cases mu; cases sigma)
    (auto simp add: moyal_pdf_def Let_def NaN_simps num_simps strict_eq_def isFinite_def)

lemma NaN_exGaussian_pdf:
  "(x = NaN \<or> mu = NaN \<or> sigma = NaN \<or> lam = NaN)
   \<and> \<not> (sigma \<le> 0 \<or> lam \<le> 0)
   \<Longrightarrow> exGaussian_pdf x mu sigma lam = NaN"
  by (cases x; cases mu; cases sigma; cases lam)
    (auto simp add: exGaussian_pdf_def Let_def NaN_simps num_simps strict_eq_def isFinite_def)

lemma NaN_vonMises_pdf:
  "(x = NaN \<or> mu = NaN \<or> kappa = NaN)
   \<and> \<not> (kappa \<le> 0 \<or> x < - Math_PI \<or> x > Math_PI)
   \<Longrightarrow> vonMises_pdf x mu kappa = NaN"
  by (cases x; cases mu; cases kappa)
    (auto simp add: vonMises_pdf_def Let_def NaN_simps num_simps strict_eq_def isFinite_def)

lemma NaN_rice_pdf:
  "(x = NaN \<or> nu = NaN \<or> sigma = NaN)
   \<and> \<not> (sigma \<le> 0 \<or> nu < 0 \<or> x < 0)
   \<Longrightarrow> rice_pdf x nu sigma = NaN"
  by (cases x; cases nu; cases sigma)
    (auto simp add: rice_pdf_def Let_def NaN_simps num_simps strict_eq_def isFinite_def)

lemma NaN_truncatedNormal_pdf:
  "(x = NaN \<or> mu = NaN \<or> sigma = NaN \<or> lower = NaN \<or> upper = NaN)
   \<and> \<not> (sigma \<le> 0 \<or> x < lower \<or> x > upper \<or> lower \<ge> upper)
   \<Longrightarrow> truncatedNormal_pdf x mu sigma lower upper = NaN"
  by (cases x; cases mu; cases sigma; cases lower; cases upper)
    (auto simp add: truncatedNormal_pdf_def Let_def NaN_simps num_simps strict_eq_def isFinite_def)

lemma NaN_binomial_pdf:
  assumes "n = NaN \<and> \<not> strict_eq p 0 \<and> \<not> strict_eq p 1 \<or> p = NaN \<and> \<not> (x = 0 \<and> n = 0)"
    and g: "\<not> (\<not> Number_isInteger x \<or> x < 0 \<or> x > n \<or> n < 0 \<or> p < 0 \<or> p > 1)"
    and b: "\<not> 2 ^ 53 < x"
  shows "binomial_pdf x n p = Some NaN"
proof -
  obtain c where c: "binomial_loop x n 0 1 = Some c"
    using binomial_loop_returns [OF b, of n 0 1] by blast
  from assms(1) show ?thesis
  proof
    assume "n = NaN \<and> \<not> strict_eq p 0 \<and> \<not> strict_eq p 1"
    with g c show ?thesis
      by (simp add: binomial_pdf_def NaN_simps)
  next
    assume p: "p = NaN \<and> \<not> (x = 0 \<and> n = 0)"
    from p g c show ?thesis
      by (cases x; cases n)
        (auto simp add: binomial_pdf_def NaN_simps num_simps)
  qed
qed

lemma NaN_negativeBinomial_pdf:
  assumes "r = NaN \<or> p = NaN"
    and g: "\<not> (\<not> Number_isInteger x \<or> x < r \<or> r < 1 \<or> p \<le> 0 \<or> p > 1)"
    and b: "\<not> 2 ^ 53 < r - 1"
  shows "negativeBinomial_pdf x r p = Some NaN"
proof -
  obtain c where c: "negativeBinomial_loop x r 0 1 = Some c"
    using negativeBinomial_loop_returns [OF b, of x 0 1] by blast
  from assms(1) g c show ?thesis
    by (cases r) (auto simp add: negativeBinomial_pdf_def NaN_simps num_simps)
qed

text \<open>
  Two evaluators never return \<open>NaN\<close>: each exit of the Beta and of the Discrete Weibull
  evaluator is \<open>0\<close>, \<open>Infinity\<close> or a value that has passed \<open>isFinite\<close>.
\<close>

lemma beta_pdf_not_NaN: "beta_pdf x alpha betaParam \<noteq> NaN"
  by (auto simp add: beta_pdf_def Let_def isFinite_def num_simps split: number.splits)

lemma discreteWeibull_pdf_not_NaN: "discreteWeibull_pdf x q beta_p \<noteq> NaN"
  by (auto simp add: discreteWeibull_pdf_def Let_def isFinite_def num_simps split: number.splits)

text \<open>
  C1 (as stated): for every distribution evaluator, a \<open>NaN\<close> argument propagates to a \<open>NaN\<close>
  result, Beta's pdf included. The Beta evaluator refutes it: with \<open>x = NaN\<close> the range
  guard lets the call through, \<open>safePow(NaN, 1)\<close> is \<open>NaN\<close>, and the guard
  \<open>if (!isFinite(term1) || !isFinite(term2)) return 0\<close> returns \<open>0\<close>. So do the other places
  where a \<open>NaN\<close> argument meets a test before it meets arithmetic: the Discrete Weibull
  evaluator tests its result with \<open>isFinite\<close>; the nine discrete evaluators test the
  evaluation point with \<open>Number.isInteger\<close>; the Uniform evaluator only compares the
  evaluation point; the Lognormal evaluator tests \<open>safeLog(x)\<close> with \<open>isFinite\<close>; the
  Chi-Squared evaluator returns at \<open>x === 0\<close> and the Binomial evaluator at \<open>p === 0\<close> before
  the other parameter is used; and \<open>Math.pow(NaN, 0)\<close> is \<open>1\<close>, which decides
  \<open>Kumaraswamy.pdf(NaN, 1, 1)\<close> and \<open>Binomial.pdf(0, 0, NaN)\<close>.
\<close>

theorem pdf_NaN_counterexample:
  "beta_pdf NaN 2 2 = 0 \<and> \<not> isNaN (beta_pdf NaN 2 2)
   \<and> discreteWeibull_pdf 1 NaN 1 = 0
   \<and> poisson_pdf NaN 3 = 0
   \<and> uniform_pdf NaN 0 1 = 1
   \<and> lognormal_pdf NaN 0 1 = 0
   \<and> chi2_pdf 0 NaN = 0
   \<and> binomial_pdf 0 NaN 0 = Some 1
   \<and> binomial_pdf 0 0 NaN = Some 1
   \<and> kumaraswamy_pdf NaN 1 1 = 1"
proof -
  have "beta_pdf NaN 2 2 = 0"
    by (simp add: beta_pdf_def Let_def isFinite_def num_simps strict_eq_def
        safePow_def Math_pow_def split: number.splits)
  moreover have "discreteWeibull_pdf 1 NaN 1 = 0"
    by (simp add: discreteWeibull_pdf_def Let_def NaN_simps num_simps Number_isInteger_def
        Math_pow_def isFinite_def)
  moreover have "poisson_pdf NaN 3 = 0"
    by (simp add: poisson_pdf_def NaN_simps)
  moreover have "uniform_pdf NaN 0 1 = 1"
    by (simp add: uniform_pdf_def NaN_simps num_simps)
  moreover have "lognormal_pdf NaN 0 1 = 0"
    by (simp add: lognormal_pdf_def NaN_simps num_simps isFinite_def)
  moreover have "chi2_pdf 0 NaN = 0"
    by (simp add: chi2_pdf_def NaN_simps num_simps strict_eq_def)
  moreover have "binomial_pdf 0 NaN 0 = Some 1"
    by (simp add: binomial_pdf_def NaN_simps num_simps strict_eq_def Number_isInteger_def)
  moreover have "binomial_pdf 0 0 NaN = Some 1"
    by (simp add: binomial_pdf_def NaN_simps num_simps strict_eq_def Number_isInteger_def
        binomial_loop_stop number_of_nat_def)
  moreover have "kumaraswamy_pdf NaN 1 1 = 1"
    by (simp add: kumaraswamy_pdf_def NaN_simps num_simps)
  ultimately show ?thesis
    by (simp add: isNaN_def num_simps)
qed

text \<open>
  C1 (amended): a \<open>NaN\<close> argument propagates to a \<open>NaN\<close> result whenever no guard of the
  evaluator returns before the argument enters the arithmetic. For 24 evaluators this holds
  for every argument, the evaluation point included, as soon as the leading guard does not
  fire. For the Uniform and the Lognormal evaluator and for the discrete evaluators it
  holds for the parameters, not for the evaluation point; Uniform also needs \<open>x\<close> not to
  fall outside \<open>[a, b]\<close>, Lognormal that \<open>safeLog(x)\<close> is finite, Chi-Squared that \<open>x\<close> is not
  \<open>0\<close>, Hypergeometric that its second guard does not fire, Binomial that neither
  \<open>p === 0\<close> nor \<open>p === 1\<close> returns first and that \<open>k = n = 0\<close> does not make both exponents
  \<open>0\<close>, Kumaraswamy that \<open>a = b = 1\<close> does not; the Binomial and the Negative Binomial
  evaluator also need a loop bound of at most \<open>2\<^sup>5\<^sup>3\<close>, so that they return. The Beta and the
  Discrete Weibull evaluator never return \<open>NaN\<close>. \<open>Normal.pdf(NaN, 0, 1)\<close> is \<open>NaN\<close> and
  \<open>Normal.pdf(0, 0, -1)\<close> is \<open>0\<close>.
\<close>

theorem pdf_NaN_propagates:
  "((x = NaN \<or> mu = NaN \<or> sigma = NaN) \<and> \<not> (sigma \<le> 0)
      \<longrightarrow> normal_pdf x mu sigma = NaN)
   \<and> ((x = NaN \<or> alpha = NaN \<or> betaParam = NaN)
    \<and> \<not> (x < 0 \<or> alpha \<le> 0 \<or> betaParam \<le> 0)
      \<longrightarrow> gamma_pdf x alpha betaParam = NaN)
   \<and> ((x = NaN \<or> lambda = NaN) \<and> \<not> (x < 0 \<or> lambda \<le> 0)
      \<longrightarrow> exponential_pdf x lambda = NaN)
   \<and> ((a = NaN \<or> b = NaN) \<and> \<not> (b \<le> a) \<and> \<not> (x < a \<or> x > b)
      \<longrightarrow> uniform_pdf x a b = NaN)
   \<and> ((mu = NaN \<or> sigma = NaN) \<and> \<not> (x \<le> 0 \<or> sigma \<le> 0)
    \<and> isFinite (safeLog x)
      \<longrightarrow> lognormal_pdf x mu sigma = NaN)
   \<and> ((x = NaN \<or> k = NaN) \<and> \<not> (x < 0 \<or> k \<le> 0) \<and> \<not> strict_eq x 0
      \<longrightarrow> chi2_pdf x k = NaN)
   \<and> ((x = NaN \<or> nu = NaN) \<and> \<not> (nu \<le> 0)
      \<longrightarrow> student_pdf x nu = NaN)
   \<and> (
    (n = NaN \<and> \<not> strict_eq p 0 \<and> \<not> strict_eq p 1 \<or> p = NaN \<and> \<not> (x = 0 \<and> n = 0))
    \<and> \<not> (\<not> Number_isInteger x \<or> x < 0 \<or> x > n \<or> n < 0 \<or> p < 0 \<or> p > 1)
    \<and> \<not> 2 ^ 53 < x
      \<longrightarrow> binomial_pdf x n p = Some NaN)
   \<and> (lambda = NaN \<and> \<not> (\<not> Number_isInteger x \<or> x < 0 \<or> lambda \<le> 0)
      \<longrightarrow> poisson_pdf x lambda = NaN)
   \<and> (p = NaN \<and> \<not> (\<not> Number_isInteger x \<or> x < 1 \<or> p \<le> 0 \<or> p > 1)
      \<longrightarrow> geometric_pdf x p = NaN)
   \<and> ((r = NaN \<or> p = NaN)
    \<and> \<not> (\<not> Number_isInteger x \<or> x < r \<or> r < 1 \<or> p \<le> 0 \<or> p > 1)
    \<and> \<not> 2 ^ 53 < r - 1
      \<longrightarrow> negativeBinomial_pdf x r p = Some NaN)
   \<and> (p = NaN \<and> \<not> (\<not> strict_eq x 0 \<and> \<not> strict_eq x 1)
      \<longrightarrow> bernoulli_pdf x p = NaN)
   \<and> ((lower = NaN \<or> upper = NaN)
    \<and> \<not> (\<not> Number_isInteger x \<or> x < lower \<or> x > upper \<or> lower > upper)
      \<longrightarrow> discreteUniform_pdf x lower upper = NaN)
   \<and> ((N = NaN \<or> K = NaN \<or> n = NaN)
    \<and> \<not> (\<not> Number_isInteger x \<or> x < 0 \<or> x > n \<or> x > K \<or> (n - x) > (N - K))
    \<and> \<not> (N < K \<or> N < n \<or> K < 0 \<or> n < 0)
      \<longrightarrow> hypergeometric_pdf x N K n = NaN)
   \<and> ((n = NaN \<or> alpha = NaN \<or> beta_p = NaN)
    \<and> \<not> (\<not> Number_isInteger x \<or> x < 0 \<or> x > n \<or> alpha \<le> 0 \<or> beta_p \<le> 0)
      \<longrightarrow> betaBinomial_pdf x n alpha beta_p = NaN)
   \<and> ((x = NaN \<or> x_loc = NaN \<or> gamma_p = NaN) \<and> \<not> (gamma_p \<le> 0)
      \<longrightarrow> cauchy_pdf x x_loc gamma_p = NaN)
   \<and> ((x = NaN \<or> mu = NaN \<or> b = NaN) \<and> \<not> (b \<le> 0)
      \<longrightarrow> laplace_pdf x mu b = NaN)
   \<and> ((x = NaN \<or> mu = NaN \<or> s = NaN) \<and> \<not> (s \<le> 0)
      \<longrightarrow> logistic_pdf x mu s = NaN)
   \<and> ((x = NaN \<or> mu = NaN \<or> beta_p = NaN) \<and> \<not> (beta_p \<le> 0)
      \<longrightarrow> gumbel_pdf x mu beta_p = NaN)
   \<and> ((x = NaN \<or> alpha = NaN \<or> beta_p = NaN)
    \<and> \<not> (alpha \<le> 0 \<or> beta_p \<le> 0 \<or> x < 0)
      \<longrightarrow> weibull_pdf x alpha beta_p = NaN)
   \<and> ((x = NaN \<or> alpha = NaN \<or> m = NaN)
    \<and> \<not> (alpha \<le> 0 \<or> m \<le> 0 \<or> x < m)
      \<longrightarrow> pareto_pdf x alpha m = NaN)
   \<and> ((x = NaN \<or> sigma = NaN) \<and> \<not> (sigma \<le> 0 \<or> x < 0)
      \<longrightarrow> halfNormal_pdf x sigma = NaN)
   \<and> ((x = NaN \<or> beta_p = NaN) \<and> \<not> (beta_p \<le> 0 \<or> x < 0)
      \<longrightarrow> halfCauchy_pdf x beta_p = NaN)
   \<and> ((x = NaN \<or> alpha = NaN \<or> beta_p = NaN)
    \<and> \<not> (alpha \<le> 0 \<or> beta_p \<le> 0 \<or> x \<le> 0)
      \<longrightarrow> inverseGamma_pdf x alpha beta_p = NaN)
   \<and> ((x = NaN \<or> lower = NaN \<or> c = NaN \<or> upper = NaN)
    \<and> \<not> (lower \<ge> c \<or> c \<ge> upper \<or> x < lower \<or> x > upper)
      \<longrightarrow> triangular_pdf x lower c upper = NaN)
   \<and> ((x = NaN \<and> \<not> (a = 1 \<and> b = 1) \<or> a = NaN \<or> b = NaN)
    \<and> \<not> (a \<le> 0 \<or> b \<le> 0 \<or> x < 0 \<or> x > 1)
      \<longrightarrow> kumaraswamy_pdf x a b = NaN)
   \<and> ((x = NaN \<or> mu = NaN \<or> b = NaN \<or> kappa = NaN)
    \<and> \<not> (b \<le> 0 \<or> kappa \<le> 0)
      \<longrightarrow> asymmetricLaplace_pdf x mu b kappa = NaN)
   \<and> ((x = NaN \<or> mu = NaN \<or> sigma = NaN \<or> alpha = NaN) \<and> \<not> (sigma \<le> 0)
      \<longrightarrow> skewNormal_pdf x mu sigma alpha = NaN)
   \<and> ((x = NaN \<or> nu = NaN \<or> sigma = NaN)
    \<and> \<not> (nu \<le> 0 \<or> sigma \<le> 0 \<or> x < 0)
      \<longrightarrow> halfStudentT_pdf x nu sigma = NaN)
   \<and> ((x = NaN \<or> mu = NaN \<or> tau = NaN)
    \<and> \<not> (tau \<le> 0 \<or> x \<le> 0 \<or> x \<ge> 1)
      \<longrightarrow> logitNormal_pdf x mu tau = NaN)
   \<and> ((x = NaN \<or> mu = NaN \<or> lam = NaN)
    \<and> \<not> (mu \<le> 0 \<or> lam \<le> 0 \<or> x \<le> 0)
      \<longrightarrow> wald_pdf x mu lam = NaN)
   \<and> ((x = NaN \<or> mu = NaN \<or> sigma = NaN) \<and> \<not> (sigma \<le> 0)
      \<longrightarrow> moyal_pdf x mu sigma = NaN)
   \<and> ((x = NaN \<or> mu = NaN \<or> sigma = NaN \<or> lam = NaN)
    \<and> \<not> (sigma \<le> 0 \<or> lam \<le> 0)
      \<longrightarrow> exGaussian_pdf x mu sigma lam = NaN)
   \<and> ((x = NaN \<or> mu = NaN \<or> kappa = NaN)
    \<and> \<not> (kappa \<le> 0 \<or> x < - Math_PI \<or> x > Math_PI)
      \<longrightarrow> vonMises_pdf x mu kappa = NaN)
   \<and> ((x = NaN \<or> nu = NaN \<or> sigma = NaN)
    \<and> \<not> (sigma \<le> 0 \<or> nu < 0 \<or> x < 0)
      \<longrightarrow> rice_pdf x nu sigma = NaN)
   \<and> ((x = NaN \<or> mu = NaN \<or> sigma = NaN \<or> lower = NaN \<or> upper = NaN)
    \<and> \<not> (sigma \<le> 0 \<or> x < lower \<or> x > upper \<or> lower \<ge> upper)
      \<longrightarrow> truncatedNormal_pdf x mu sigma lower upper = NaN)
   \<and> beta_pdf x alpha betaParam \<noteq> NaN
   \<and> discreteWeibull_pdf x q beta_p \<noteq> NaN
   \<and> normal_pdf NaN 0 1 = NaN
   \<and> normal_pdf 0 0 (- 1) = 0"
proof -
  have e1: "normal_pdf NaN 0 1 = NaN"
    by (rule NaN_normal_pdf) (simp add: num_simps)
  have e2: "normal_pdf 0 0 (- 1) = 0"
    by (simp add: normal_pdf_def num_simps)
  show ?thesis
    by (intro conjI impI beta_pdf_not_NaN discreteWeibull_pdf_not_NaN e1 e2;
        (elim conjE)?;
        ((rule NaN_normal_pdf; blast) |
         (rule NaN_gamma_pdf; blast) |
         (rule NaN_exponential_pdf; blast) |
         (rule NaN_uniform_pdf; blast) |
         (rule NaN_lognormal_pdf; blast) |
         (rule NaN_chi2_pdf; blast) |
         (rule NaN_student_pdf; blast) |
         (rule NaN_binomial_pdf; blast) |
         (rule NaN_poisson_pdf; blast) |
         (rule NaN_geometric_pdf; blast) |
         (rule NaN_negativeBinomial_pdf; blast) |
         (rule NaN_bernoulli_pdf; blast) |
         (rule NaN_discreteUniform_pdf; blast) |
         (rule NaN_hypergeometric_pdf; blast) |
         (rule NaN_betaBinomial_pdf; blast) |
         (rule NaN_cauchy_pdf; blast) |
         (rule NaN_laplace_pdf; blast) |
         (rule NaN_logistic_pdf; blast) |
         (rule NaN_gumbel_pdf; blast) |
         (rule NaN_weibull_pdf; blast) |
         (rule NaN_pareto_pdf; blast) |
         (rule NaN_halfNormal_pdf; blast) |
         (rule NaN_halfCauchy_pdf; blast) |
         (rule NaN_inverseGamma_pdf; blast) |
         (rule NaN_triangular_pdf; blast) |
         (rule NaN_kumaraswamy_pdf; blast) |
         (rule NaN_asymmetricLaplace_pdf; blast) |
         (rule NaN_skewNormal_pdf; blast) |
         (rule NaN_halfStudentT_pdf; blast) |
         (rule NaN_logitNormal_pdf; blast) |
         (rule NaN_wald_pdf; blast) |
         (rule NaN_moyal_pdf; blast) |
         (rule NaN_exGaussian_pdf; blast) |
         (rule NaN_vonMises_pdf; blast) |
         (rule NaN_rice_pdf; blast) |
         (rule NaN_truncatedNormal_pdf; blast)))
qed

theorem pdf_NaN_propagates_witness:
  "normal_pdf NaN 1 1 = NaN
   \<and> gamma_pdf NaN 2 2 = NaN
   \<and> exponential_pdf NaN 1 = NaN
   \<and> uniform_pdf 1 NaN NaN = NaN
   \<and> lognormal_pdf 1 NaN NaN = NaN
   \<and> chi2_pdf NaN 3 = NaN
   \<and> student_pdf NaN 3 = NaN
   \<and> binomial_pdf 1 NaN NaN = Some NaN
   \<and> poisson_pdf 1 NaN = NaN
   \<and> geometric_pdf 1 NaN = NaN
   \<and> negativeBinomial_pdf 1 NaN NaN = Some NaN
   \<and> bernoulli_pdf 1 NaN = NaN
   \<and> discreteUniform_pdf 1 NaN NaN = NaN
   \<and> hypergeometric_pdf 1 NaN NaN NaN = NaN
   \<and> betaBinomial_pdf 1 NaN NaN NaN = NaN
   \<and> cauchy_pdf NaN 0 1 = NaN
   \<and> laplace_pdf NaN 1 2 = NaN
   \<and> logistic_pdf NaN 1 1 = NaN
   \<and> gumbel_pdf NaN 1 1 = NaN
   \<and> weibull_pdf NaN 2 1 = NaN
   \<and> pareto_pdf NaN 2 1 = NaN
   \<and> halfNormal_pdf NaN 1 = NaN
   \<and> halfCauchy_pdf NaN 1 = NaN
   \<and> inverseGamma_pdf NaN 2 1 = NaN
   \<and> triangular_pdf NaN 0 1 2 = NaN
   \<and> kumaraswamy_pdf NaN 2 2 = NaN
   \<and> asymmetricLaplace_pdf NaN 1 2 1 = NaN
   \<and> skewNormal_pdf NaN 1 1 2 = NaN
   \<and> halfStudentT_pdf NaN 3 1 = NaN
   \<and> logitNormal_pdf NaN 1 1 = NaN
   \<and> wald_pdf NaN 1 1 = NaN
   \<and> moyal_pdf NaN 1 1 = NaN
   \<and> exGaussian_pdf NaN 1 1 1 = NaN
   \<and> vonMises_pdf NaN 1 1 = NaN
   \<and> rice_pdf NaN 3 1 = NaN
   \<and> truncatedNormal_pdf NaN 1 1 0 2 = NaN"
  using pdf_NaN_propagates
    [where x = "NaN" and mu = "1" and sigma = "1" and alpha = "2" and betaParam = "2"
       and lambda = "1" and a = "2" and b = "2" and k = "3" and nu = "3" and n = "10"
       and p = "0.5" and r = "3" and lower = "0" and upper = "2" and c = "1" and N = "50"
       and K = "20" and beta_p = "1" and q = "0.5" and x_loc = "0" and gamma_p = "1"
       and s = "1" and m = "1" and kappa = "1" and tau = "1" and lam = "1"]
    pdf_NaN_propagates
    [where x = "1" and mu = "NaN" and sigma = "NaN" and alpha = "NaN" and betaParam = "NaN"
       and lambda = "NaN" and a = "NaN" and b = "NaN" and k = "NaN" and nu = "NaN"
       and n = "NaN" and p = "NaN" and r = "NaN" and lower = "NaN" and upper = "NaN"
       and c = "NaN" and N = "NaN" and K = "NaN" and beta_p = "NaN" and q = "NaN"
       and x_loc = "NaN" and gamma_p = "NaN" and s = "NaN" and m = "NaN" and kappa = "NaN"
       and tau = "NaN" and lam = "NaN"]
  by (simp add: num_simps NaN_simps Number_isInteger_def strict_eq_def safeLog_def
      Math_log_def isFinite_def)

section \<open>The gamma function returns\<close>

text \<open>
  C9: \<open>gamma\<close> terminates on every input (its termination is proved with its definition,
  so \<open>gamma\<close> is a total function of the model). A call stack of depth two always
  suffices: the reflection branch, taken when \<open>z < 0.5\<close>, makes one recursive call, its
  argument \<open>1 - z\<close> satisfies \<open>1 - z \<ge> 0.5\<close>, and that call returns without a further
  call. Depth one does not suffice for \<open>z < 0.5\<close>, so the recursive call is made.
\<close>

theorem gamma_terminates_depth_one:
  "gamma_fuel 2 z = Some (gamma z)
   \<and> (z < 0.5 \<longrightarrow>
        1 - z \<ge> 0.5 \<and> \<not> 1 - z < 0.5
        \<and> gamma_fuel 1 z = None
        \<and> gamma_fuel 1 (1 - z) = Some (gamma (1 - z))
        \<and> gamma z = Math_PI / (Math_sin (Math_PI * z) * lanczos (1 - z)))
   \<and> (\<not> z < 0.5 \<longrightarrow> gamma_fuel 1 z = Some (gamma z) \<and> gamma z = lanczos z)"
proof -
  have r: "\<not> 1 - z < 0.5" if "z < 0.5"
    using that by (rule reflect_ge_half)
  have ge: "0.5 \<le> 1 - z" if "z < 0.5"
    using that by (cases z) (simp_all add: num_simps)
  have d: "gamma (1 - z) = lanczos (1 - z)" if "z < 0.5"
    using r [OF that] by (subst gamma.simps) simp
  show ?thesis
    using r ge d by (simp add: numeral_2_eq_2 gamma.simps [of z])
qed

theorem gamma_terminates_witness:
  "(0 :: number) < 0.5 \<and> gamma_fuel 1 0 = None \<and> gamma_fuel 2 0 = Some (gamma 0)
   \<and> \<not> (1 :: number) < 0.5 \<and> gamma_fuel 1 1 = Some (gamma 1)"
  using gamma_terminates_depth_one [of 0] gamma_terminates_depth_one [of 1]
  by (simp add: num_simps)

section \<open>Symmetry of the Beta function\<close>

lemma plus_number_commute: "(a :: number) + b = b + a"
  by (cases a; cases b) simp_all

lemma times_number_commute: "(a :: number) * b = b * a"
  by (cases a; cases b) simp_all

text \<open>
  C8: \<open>beta(a, b) = beta(b, a)\<close>. The two calls take the same branch, and each branch is
  invariant under the swap, since \<open>+\<close> and \<open>*\<close> on numbers are commutative. The equation
  holds for all numbers, the positive ones among them; it is an equation between values,
  so where one side is \<open>NaN\<close> the other is \<open>NaN\<close> too.
\<close>

theorem beta_symmetric:
  "beta a b = beta b a
   \<and> ((a > 50 \<or> b > 50 \<or> (a + b) > 50) = (b > 50 \<or> a > 50 \<or> (b + a) > 50))
   \<and> Math_exp (logGamma a + logGamma b - logGamma (a + b))
       = Math_exp (logGamma b + logGamma a - logGamma (b + a))
   \<and> gamma a * gamma b / gamma (a + b) = gamma b * gamma a / gamma (b + a)"
  by (auto simp add: beta_def Let_def plus_number_commute [of a b]
      times_number_commute [of "gamma a" "gamma b"]
      plus_number_commute [of "logGamma a" "logGamma b"])

section \<open>Range estimators and falsy parameters\<close>

text \<open>
  C6 (as stated): the width of the Normal range estimate is strictly increasing in \<open>sigma\<close>
  for all values of \<open>sigma\<close>. The estimator reads \<open>params.sigma || 1\<close>, so \<open>sigma = 0\<close> gives
  the width of \<open>sigma = 1\<close>, which is \<open>8\<close>, and \<open>sigma = 0.5\<close> gives the smaller width \<open>4\<close>.
\<close>

theorem normal_range_width_counterexample:
  "(0 :: number) < 0.5
   \<and> \<not> width (normal_rangeCalculator [''sigma'' \<mapsto> 0])
         < width (normal_rangeCalculator [''sigma'' \<mapsto> 0.5])
   \<and> width (normal_rangeCalculator [''sigma'' \<mapsto> 0]) = 8
   \<and> width (normal_rangeCalculator [''sigma'' \<mapsto> 0.5]) = 4"
  by (simp add: width_def normal_rangeCalculator_def js_or_def truthy_def num_simps Let_def)

text \<open>
  C6 (amended): the width of the Normal range estimate is strictly increasing in \<open>sigma\<close>
  as long as the smaller value is not \<open>0\<close> and the width does not overflow: for all \<open>s1\<close> and
  \<open>s2\<close> of magnitude below \<open>2\<^sup>1\<^sup>0\<^sup>2\<^sup>1\<close> with \<open>s2 > s1\<close> and \<open>s1 \<noteq> 0\<close>, the width for
  \<open>{sigma: s2}\<close> exceeds the width for \<open>{sigma: s1}\<close>. With \<open>mu\<close> absent the estimator computes
  \<open>0 - 4 * sigma\<close> and \<open>0 + 4 * sigma\<close>, and the width is their difference \<open>8 * sigma\<close>. Below
  \<open>2\<^sup>1\<^sup>0\<^sup>2\<^sup>1\<close> each of these operations is exact on doubles (a scaling by a power of two with
  a finite result), so the numbers of this theory are the numbers the code computes; from
  \<open>2\<^sup>1\<^sup>0\<^sup>2\<^sup>1\<close> on the width of the code is \<open>Infinity\<close> for every \<open>sigma\<close>, which is outside the
  arithmetic of this theory.
\<close>

theorem normal_range_width_increasing:
  "s1 < s2 \<Longrightarrow> s1 \<noteq> 0 \<Longrightarrow> Math_abs s1 < 2 ^ 1021 \<Longrightarrow> Math_abs s2 < 2 ^ 1021 \<Longrightarrow>
   width (normal_rangeCalculator [''sigma'' \<mapsto> s1])
     < width (normal_rangeCalculator [''sigma'' \<mapsto> s2])"
  by (cases s1; cases s2)
    (auto simp add: width_def normal_rangeCalculator_def js_or_def truthy_def num_simps Let_def)

theorem normal_range_width_witness:
  "(1 :: number) < 2 \<and> (1 :: number) \<noteq> 0
   \<and> Math_abs 1 < 2 ^ 1021 \<and> Math_abs 2 < 2 ^ 1021
   \<and> width (normal_rangeCalculator [''sigma'' \<mapsto> 1])
       < width (normal_rangeCalculator [''sigma'' \<mapsto> 2])"
  using normal_range_width_increasing [of 1 2] by (simp add: num_simps Math_abs_def)














































section \<open>Discrete evaluators\<close>

lemma isInteger_consts: "Number_isInteger 0" "Number_isInteger 1"
  by (simp_all add: Number_isInteger_def num_simps)

text \<open>
  C4: each of the nine discrete evaluators returns \<open>0\<close> when the evaluation point is not
  an integer (\<open>NaN\<close> and the infinities are not integers either). \<open>Binomial.pdf(k, 10, 0.5)\<close>
  is \<open>0\<close> for every non-integer \<open>k\<close>, for \<open>k < 0\<close> and for \<open>k > 10\<close>, and
  \<open>Binomial.pdf(5, 10, 0.5)\<close> is \<open>0.24609375\<close>. In each of these cases the Binomial
  and the Negative Binomial evaluator return: their value is \<open>Some\<close> of the number.
\<close>

theorem discrete_pdf_noninteger_zero:
  "(\<not> Number_isInteger x \<longrightarrow>
      binomial_pdf x n p = Some 0 \<and> poisson_pdf x lambda = 0 \<and> geometric_pdf x p = 0
      \<and> negativeBinomial_pdf x r p = Some 0 \<and> bernoulli_pdf x p = 0
      \<and> discreteUniform_pdf x lower upper = 0 \<and> hypergeometric_pdf x N K n = 0
      \<and> betaBinomial_pdf x n alpha beta_param = 0 \<and> discreteWeibull_pdf x q beta_param = 0)
   \<and> (\<not> Number_isInteger k \<or> k < 0 \<or> k > 10 \<longrightarrow> binomial_pdf k 10 0.5 = Some 0)
   \<and> binomial_pdf 5 10 0.5 = Some 0.24609375"
proof (intro conjI impI)
  assume "\<not> Number_isInteger k \<or> k < 0 \<or> k > 10"
  then show "binomial_pdf k 10 0.5 = Some 0"
    by (auto simp add: binomial_pdf_def)
next
  show "binomial_pdf 5 10 0.5 = Some 0.24609375"
    by (simp add: binomial_pdf_def num_simps Number_isInteger_def strict_eq_def
        binomial_loop_step binomial_loop_stop increment_small number_of_nat_def Math_pow_def
        power_divide)
qed (use isInteger_consts in \<open>auto simp add: binomial_pdf_def poisson_pdf_def geometric_pdf_def
      negativeBinomial_pdf_def bernoulli_pdf_def discreteUniform_pdf_def hypergeometric_pdf_def
      betaBinomial_pdf_def discreteWeibull_pdf_def strict_eq_def\<close>)

theorem discrete_pdf_noninteger_zero_witness:
  "\<not> Number_isInteger 1.5 \<and> (11 :: number) > 10
   \<and> binomial_pdf 1.5 10 0.5 = Some 0 \<and> poisson_pdf 1.5 3 = 0 \<and> geometric_pdf 1.5 0.5 = 0
   \<and> negativeBinomial_pdf 1.5 2 0.5 = Some 0 \<and> bernoulli_pdf 1.5 0.5 = 0
   \<and> discreteUniform_pdf 1.5 1 6 = 0 \<and> hypergeometric_pdf 1.5 50 20 10 = 0
   \<and> betaBinomial_pdf 1.5 10 2 2 = 0 \<and> discreteWeibull_pdf 1.5 0.5 1 = 0
   \<and> binomial_pdf 11 10 0.5 = Some 0"
proof -
  have h: "\<not> Number_isInteger 1.5" "(11 :: number) > 10"
    by (simp_all add: Number_isInteger_def num_simps)
  from h discrete_pdf_noninteger_zero
         [of "1.5" 10 "0.5" 3 2 1 6 50 20 2 2 "0.5" 11]
       discrete_pdf_noninteger_zero [of "1.5" 10 "0.5" 3 2 1 6 50 20 2 1 "0.5" 11]
  show ?thesis by simp
qed

section \<open>Parameter validation\<close>

lemmas pdf_defs =
  asymmetricLaplace_pdf_def bernoulli_pdf_def betaBinomial_pdf_def beta_pdf_def
  binomial_pdf_def cauchy_pdf_def chi2_pdf_def discreteUniform_pdf_def
  discreteWeibull_pdf_def exGaussian_pdf_def exponential_pdf_def gamma_pdf_def
  geometric_pdf_def gumbel_pdf_def halfCauchy_pdf_def halfNormal_pdf_def
  halfStudentT_pdf_def hypergeometric_pdf_def inverseGamma_pdf_def kumaraswamy_pdf_def
  laplace_pdf_def logistic_pdf_def logitNormal_pdf_def lognormal_pdf_def moyal_pdf_def
  negativeBinomial_pdf_def normal_pdf_def pareto_pdf_def poisson_pdf_def rice_pdf_def
  skewNormal_pdf_def student_pdf_def triangular_pdf_def truncatedNormal_pdf_def
  uniform_pdf_def vonMises_pdf_def wald_pdf_def weibull_pdf_def

text \<open>
  C2 (as stated): a parameter that violates its constraint makes the evaluator return \<open>0\<close>,
  an integer-only parameter given a non-integer value included. No evaluator tests a
  parameter with \<open>Number.isInteger\<close>, only the evaluation point: \<open>Binomial.pdf(2, 2.5, 0.5)\<close>
  passes every guard, the loop gives the coefficient \<open>1.875\<close>, and the result is
  \<open>1.875 * Math.pow(0.5, 2) * Math.pow(0.5, 0.5)\<close>, which is not \<open>0\<close>.
\<close>

theorem binomial_noninteger_n_counterexample:
  "\<not> Number_isInteger 2.5 \<and> binomial_pdf 2 2.5 0.5 \<noteq> Some 0"
  by (simp add: binomial_pdf_def num_simps Number_isInteger_def strict_eq_def
      binomial_loop_step binomial_loop_stop increment_small number_of_nat_def Math_pow_def)

text \<open>
  C2 (amended): for each of the 38 evaluators and every argument list, a parameter outside
  the range its guard tests (a scale, shape, rate or degrees-of-freedom parameter \<open>\<le> 0\<close>,
  a probability outside its interval, bounds in the wrong order, a negative count) makes
  the evaluator return \<open>0\<close>; whether an integer-only parameter is an integer is not tested.
  No evaluator contains a \<open>throw\<close>, and the arithmetic and the \<open>Math\<close> functions they call are
  total on numbers, so none raises an exception. The two evaluators with a loop need not
  return, though: the Binomial evaluator returns unless its arguments pass the guards with
  an evaluation point above \<open>2\<^sup>5\<^sup>3\<close>, where its loop does not end, and the Negative Binomial
  evaluator returns whenever \<open>r - 1\<close> is at most \<open>2\<^sup>5\<^sup>3\<close>.
\<close>

theorem parameter_violation_zero:
  "(sigma \<le> 0 \<longrightarrow> normal_pdf x mu sigma = 0)
   \<and> (alpha \<le> 0 \<or> betaParam \<le> 0 \<longrightarrow> beta_pdf x alpha betaParam = 0)
   \<and> (alpha \<le> 0 \<or> betaParam \<le> 0 \<longrightarrow> gamma_pdf x alpha betaParam = 0)
   \<and> (lambda \<le> 0 \<longrightarrow> exponential_pdf x lambda = 0)
   \<and> (b \<le> a \<longrightarrow> uniform_pdf x a b = 0)
   \<and> (sigma \<le> 0 \<longrightarrow> lognormal_pdf x mu sigma = 0)
   \<and> (k \<le> 0 \<longrightarrow> chi2_pdf x k = 0)
   \<and> (nu \<le> 0 \<longrightarrow> student_pdf x nu = 0)
   \<and> (n < 0 \<or> p < 0 \<or> p > 1 \<longrightarrow> binomial_pdf x n p = Some 0)
   \<and> (lambda \<le> 0 \<longrightarrow> poisson_pdf x lambda = 0)
   \<and> (p \<le> 0 \<or> p > 1 \<longrightarrow> geometric_pdf x p = 0)
   \<and> (r < 1 \<or> p \<le> 0 \<or> p > 1 \<longrightarrow> negativeBinomial_pdf x r p = Some 0)
   \<and> (p < 0 \<or> p > 1 \<longrightarrow> bernoulli_pdf x p = 0)
   \<and> (lower > upper \<longrightarrow> discreteUniform_pdf x lower upper = 0)
   \<and> (N < K \<or> N < n \<or> K < 0 \<or> n < 0 \<longrightarrow> hypergeometric_pdf x N K n = 0)
   \<and> (alpha \<le> 0 \<or> beta_p \<le> 0 \<longrightarrow> betaBinomial_pdf x n alpha beta_p = 0)
   \<and> (q \<le> 0 \<or> q \<ge> 1 \<or> beta_p \<le> 0 \<longrightarrow> discreteWeibull_pdf x q beta_p = 0)
   \<and> (gamma_p \<le> 0 \<longrightarrow> cauchy_pdf x x_loc gamma_p = 0)
   \<and> (b \<le> 0 \<longrightarrow> laplace_pdf x mu b = 0)
   \<and> (s \<le> 0 \<longrightarrow> logistic_pdf x mu s = 0)
   \<and> (beta_p \<le> 0 \<longrightarrow> gumbel_pdf x mu beta_p = 0)
   \<and> (alpha \<le> 0 \<or> beta_p \<le> 0 \<longrightarrow> weibull_pdf x alpha beta_p = 0)
   \<and> (alpha \<le> 0 \<or> m \<le> 0 \<longrightarrow> pareto_pdf x alpha m = 0)
   \<and> (sigma \<le> 0 \<longrightarrow> halfNormal_pdf x sigma = 0)
   \<and> (beta_p \<le> 0 \<longrightarrow> halfCauchy_pdf x beta_p = 0)
   \<and> (alpha \<le> 0 \<or> beta_p \<le> 0 \<longrightarrow> inverseGamma_pdf x alpha beta_p = 0)
   \<and> (lower \<ge> c \<or> c \<ge> upper \<longrightarrow> triangular_pdf x lower c upper = 0)
   \<and> (a \<le> 0 \<or> b \<le> 0 \<longrightarrow> kumaraswamy_pdf x a b = 0)
   \<and> (b \<le> 0 \<or> kappa \<le> 0 \<longrightarrow> asymmetricLaplace_pdf x mu b kappa = 0)
   \<and> (sigma \<le> 0 \<longrightarrow> skewNormal_pdf x mu sigma alpha = 0)
   \<and> (nu \<le> 0 \<or> sigma \<le> 0 \<longrightarrow> halfStudentT_pdf x nu sigma = 0)
   \<and> (tau \<le> 0 \<longrightarrow> logitNormal_pdf x mu tau = 0)
   \<and> (mu \<le> 0 \<or> lam \<le> 0 \<longrightarrow> wald_pdf x mu lam = 0)
   \<and> (sigma \<le> 0 \<longrightarrow> moyal_pdf x mu sigma = 0)
   \<and> (sigma \<le> 0 \<or> lam \<le> 0 \<longrightarrow> exGaussian_pdf x mu sigma lam = 0)
   \<and> (kappa \<le> 0 \<longrightarrow> vonMises_pdf x mu kappa = 0)
   \<and> (sigma \<le> 0 \<or> nu < 0 \<longrightarrow> rice_pdf x nu sigma = 0)
   \<and> (sigma \<le> 0 \<or> lower \<ge> upper \<longrightarrow> truncatedNormal_pdf x mu sigma lower upper = 0)
   \<and> (binomial_pdf x n p = None) =
       (2 ^ 53 < x
        \<and> \<not> (\<not> Number_isInteger x \<or> x < 0 \<or> x > n \<or> n < 0 \<or> p < 0 \<or> p > 1)
        \<and> \<not> strict_eq p 0 \<and> \<not> strict_eq p 1)
   \<and> (\<not> 2 ^ 53 < r - 1 \<longrightarrow> negativeBinomial_pdf x r p \<noteq> None)"
  by (intro conjI impI;
      (rule binomial_pdf_endless | (rule negativeBinomial_pdf_returns, assumption)
       | (auto simp add: pdf_defs)[1]))

theorem parameter_violation_zero_witness:
  "normal_pdf 0 (- 1) (- 1) = 0
   \<and> beta_pdf 0 (- 1) (- 1) = 0
   \<and> gamma_pdf 0 (- 1) (- 1) = 0
   \<and> exponential_pdf 0 (- 1) = 0
   \<and> uniform_pdf 0 1 0 = 0
   \<and> lognormal_pdf 0 (- 1) (- 1) = 0
   \<and> chi2_pdf 0 (- 1) = 0
   \<and> student_pdf 0 (- 1) = 0
   \<and> binomial_pdf 0 (- 1) 2 = Some 0
   \<and> poisson_pdf 0 (- 1) = 0
   \<and> geometric_pdf 0 2 = 0
   \<and> negativeBinomial_pdf 0 0 2 = Some 0
   \<and> bernoulli_pdf 0 2 = 0
   \<and> discreteUniform_pdf 0 1 0 = 0
   \<and> hypergeometric_pdf 0 0 1 (- 1) = 0
   \<and> betaBinomial_pdf 0 (- 1) (- 1) (- 1) = 0
   \<and> discreteWeibull_pdf 0 0 (- 1) = 0
   \<and> cauchy_pdf 0 0 (- 1) = 0
   \<and> laplace_pdf 0 (- 1) 0 = 0
   \<and> logistic_pdf 0 (- 1) (- 1) = 0
   \<and> gumbel_pdf 0 (- 1) (- 1) = 0
   \<and> weibull_pdf 0 (- 1) (- 1) = 0
   \<and> pareto_pdf 0 (- 1) (- 1) = 0
   \<and> halfNormal_pdf 0 (- 1) = 0
   \<and> halfCauchy_pdf 0 (- 1) = 0
   \<and> inverseGamma_pdf 0 (- 1) (- 1) = 0
   \<and> triangular_pdf 0 1 0 0 = 0
   \<and> kumaraswamy_pdf 0 1 0 = 0
   \<and> asymmetricLaplace_pdf 0 (- 1) 0 (- 1) = 0
   \<and> skewNormal_pdf 0 (- 1) (- 1) (- 1) = 0
   \<and> halfStudentT_pdf 0 (- 1) (- 1) = 0
   \<and> logitNormal_pdf 0 (- 1) (- 1) = 0
   \<and> wald_pdf 0 (- 1) (- 1) = 0
   \<and> moyal_pdf 0 (- 1) (- 1) = 0
   \<and> exGaussian_pdf 0 (- 1) (- 1) (- 1) = 0
   \<and> vonMises_pdf 0 (- 1) (- 1) = 0
   \<and> rice_pdf 0 (- 1) (- 1) = 0
   \<and> truncatedNormal_pdf 0 (- 1) (- 1) 1 0 = 0
   \<and> binomial_pdf 5 10 0.5 \<noteq> None
   \<and> \<not> (2 :: number) ^ 53 < 3 - 1 \<and> negativeBinomial_pdf 5 3 0.5 \<noteq> None"
  using parameter_violation_zero
    [where x = "0" and mu = "- 1" and sigma = "- 1" and alpha = "- 1" and betaParam = "- 1" and
       a = "1" and b = "0" and k = "- 1" and nu = "- 1" and n = "- 1" and p = "2" and r =
       "0" and lower = "1" and upper = "0" and c = "0" and N = "0" and K = "1" and beta_p =
       "- 1" and q = "0" and gamma_p = "- 1" and s = "- 1" and m = "- 1" and kappa = "- 1"
       and tau = "- 1" and lam = "- 1" and x_loc = "0" and lambda = "- 1"]
    parameter_violation_zero [where x = "5" and n = "10" and p = "0.5" and r = "3"]
  by (simp add: num_simps)

section \<open>Range estimates\<close>

lemmas range_eval = js_or_def truthy_def num_simps Let_def Math_sqrt_def Math_exp_def
  Math_log_def Math_max_def Math_min_def Math_ceil_def Math_pow_def Math_abs_def Math_PI_def

text \<open>
  C5: every range estimator is to return \<open>min < max\<close> for every valid parameter assignment;
  the test suite of the repository expects \<open>range.max\<close> to be greater than \<open>range.min\<close> for
  each estimator of \<open>rangeCalculators\<close>. Three estimators do not keep this. The Inverse Gamma
  estimator starts its range at the constant \<open>0.001\<close> and ends it at five times the mean
  \<open>beta / (alpha - 1)\<close>, which lies below \<open>0.001\<close> for a large shape: with \<open>alpha = 10001\<close> and
  \<open>beta = 1\<close> the range is inverted, \<open>max < min\<close>. The Discrete Uniform estimator returns
  its two bounds, and \<open>lower = upper\<close> is a valid assignment (the evaluator gives the single
  point the mass \<open>1\<close>), so \<open>min = max\<close>. The Hypergeometric estimator returns the support
  \<open>[max(0, n - (N - K)), min(n, K)]\<close>, a single point when \<open>N = K\<close>.
\<close>

theorem range_min_not_less_max:
  "discreteUniform_rangeCalculator [''lower'' \<mapsto> 3, ''upper'' \<mapsto> 3] = \<lparr>min_x = 3, max_x = 3\<rparr>
   \<and> discreteUniform_pdf 3 3 3 = 1
   \<and> hypergeometric_rangeCalculator [''N'' \<mapsto> 10, ''K'' \<mapsto> 10, ''n'' \<mapsto> 5]
       = \<lparr>min_x = 5, max_x = 5\<rparr>
   \<and> min_x (inverseGamma_rangeCalculator [''alpha'' \<mapsto> 10001, ''beta'' \<mapsto> 1]) = 0.001
   \<and> max_x (inverseGamma_rangeCalculator [''alpha'' \<mapsto> 10001, ''beta'' \<mapsto> 1])
       < min_x (inverseGamma_rangeCalculator [''alpha'' \<mapsto> 10001, ''beta'' \<mapsto> 1])"
  by (simp add: discreteUniform_rangeCalculator_def hypergeometric_rangeCalculator_def
      inverseGamma_rangeCalculator_def discreteUniform_pdf_def Number_isInteger_def range_eval)

theorem range_min_not_less_max_witness:
  "Number_isInteger 3 \<and> \<not> (3 :: number) < 3 \<and> \<not> (3 :: number) > 3
   \<and> discreteUniform_pdf 3 3 3 = 1
   \<and> min_x (discreteUniform_rangeCalculator [''lower'' \<mapsto> 3, ''upper'' \<mapsto> 3])
       = max_x (discreteUniform_rangeCalculator [''lower'' \<mapsto> 3, ''upper'' \<mapsto> 3])"
  using range_min_not_less_max by (simp add: Number_isInteger_def num_simps)

section \<open>The Lanczos branch on finite arguments\<close>

text \<open>
  For a finite argument \<open>z \<ge> 0.5\<close> the branch of \<open>gamma\<close> without a recursive call returns
  the product of \<open>Math.sqrt(2 * Math.PI)\<close>, the power, the exponential and the sum of the
  loop.
\<close>

lemma lanczos_Fin:
  assumes "1 / 2 \<le> z"
  shows "lanczos (Fin z) =
           Fin (sqrt (2 * pi) * (if z = 1 / 2 then 1 else (z + 13 / 2) powr (z - 1 / 2))
                  * exp (- (z + 13 / 2)) * lanczos_sum (z - 1))"
proof -
  have nz: "z \<noteq> 0" "z + 1 \<noteq> 0" "z + 2 \<noteq> 0" "z + 3 \<noteq> 0" "z + 4 \<noteq> 0" "z + 5 \<noteq> 0"
    "z + 6 \<noteq> 0" "z + 7 \<noteq> 0" "\<not> z + 13 / 2 < 0" "z + 13 / 2 \<noteq> 0" "\<not> z * 2 + 13 < 0"
    using assms by simp_all
  show ?thesis
    unfolding lanczos_def gamma_g_def lanczos_indices
    using nz
    by (simp add: lanczos_sum_def Let_def gamma_c_def
        number_of_nat_def num_simps Math_sqrt_def Math_PI_def Math_pow_def Math_exp_def
        add.commute)
qed

text \<open>The values \<open>gamma(1)\<close> and \<open>gamma(2)\<close> are finite and positive.\<close>

lemma gamma_1_2_pos:
  "\<exists>G. gamma 1 = Fin G \<and> 0 < G" "\<exists>G. gamma 2 = Fin G \<and> 0 < G"
proof -
  have s: "0 < lanczos_sum 0" "0 < lanczos_sum 1"
    by (simp_all add: lanczos_sum_def)
  have g: "gamma 1 = lanczos (Fin 1)" "gamma 2 = lanczos (Fin 2)"
    by (subst gamma.simps, simp add: num_simps)+
  have "0 < sqrt (2 * pi) * (if (1 :: real) = 1 / 2 then 1 else (1 + 13 / 2) powr (1 - 1 / 2))
              * exp (- (1 + 13 / 2)) * lanczos_sum (1 - 1)"
    using s by (intro mult_pos_pos) simp_all
  then show "\<exists>G. gamma 1 = Fin G \<and> 0 < G"
    using lanczos_Fin [of 1] g by simp
  have "0 < sqrt (2 * pi) * (if (2 :: real) = 1 / 2 then 1 else (2 + 13 / 2) powr (2 - 1 / 2))
              * exp (- (2 + 13 / 2)) * lanczos_sum (2 - 1)"
    using s by (intro mult_pos_pos) simp_all
  then show "\<exists>G. gamma 2 = Fin G \<and> 0 < G"
    using lanczos_Fin [of 2] g by simp
qed

section \<open>Boundary values of the Beta evaluator\<close>

text \<open>
  C3 (as stated): for shape parameters \<open>\<alpha>, \<beta> > 0\<close> the Beta evaluator returns
  \<open>1 / beta(\<alpha>, \<beta>)\<close> at \<open>x = 0\<close> when \<open>\<alpha> = 1\<close>. The evaluator returns this quotient only after
  the test \<open>isFinite(betaValue) && betaValue > 0\<close>, and \<open>0\<close> otherwise. With \<open>\<alpha> = 1\<close> and
  \<open>\<beta> = Infinity\<close>, which is a positive number, \<open>logGamma(Infinity)\<close> is
  \<open>Infinity * Infinity - Infinity\<close>, that is \<open>NaN\<close>; so \<open>beta(1, Infinity)\<close> is \<open>NaN\<close>, the quotient
  \<open>1 / beta(1, Infinity)\<close> is \<open>NaN\<close>, and the evaluator returns \<open>0\<close>.
\<close>

theorem beta_pdf_boundary_counterexample:
  "(0 :: number) < 1 \<and> (0 :: number) < PInf
   \<and> beta 1 PInf = NaN
   \<and> 1 / beta 1 PInf = NaN
   \<and> beta_pdf 0 1 PInf = 0
   \<and> beta_pdf 0 1 PInf \<noteq> 1 / beta 1 PInf"
proof -
  have l: "logGamma PInf = NaN"
    by (simp add: logGamma_def num_simps Math_log_def)
  have b: "beta 1 PInf = NaN"
    by (simp add: beta_def l NaN_simps) (simp add: num_simps)
  show ?thesis
    by (simp add: b beta_pdf_def NaN_simps strict_eq_def Let_def) (simp add: num_simps)
qed

text \<open>
  C3 (amended): for shape parameters \<open>\<alpha>, \<beta> > 0\<close> the Beta evaluator returns at \<open>x = 0\<close> the
  value \<open>0\<close> when \<open>\<alpha> > 1\<close>, \<open>+Infinity\<close> when \<open>\<alpha> < 1\<close>, and when \<open>\<alpha> = 1\<close> the value
  \<open>1 / beta(\<alpha>, \<beta>)\<close> if \<open>beta(\<alpha>, \<beta>)\<close> is finite and positive and \<open>0\<close> if it is not; at \<open>x = 1\<close>
  the same with \<open>\<beta>\<close> in the place of \<open>\<alpha>\<close>. With \<open>\<alpha> = \<beta> = 2\<close> the value at \<open>0\<close> and at \<open>1\<close> is
  \<open>0\<close>; with \<open>\<alpha> = \<beta> = 0.5\<close> it is \<open>+Infinity\<close>; with \<open>\<alpha> = \<beta> = 1\<close> the Beta function is finite
  and positive and the value at \<open>0\<close> is \<open>1 / beta(1, 1)\<close>.
\<close>

theorem beta_pdf_boundary:
  "(0 < a \<and> 0 < b \<longrightarrow>
     (1 < a \<longrightarrow> beta_pdf 0 a b = 0)
     \<and> (a < 1 \<longrightarrow> beta_pdf 0 a b = PInf)
     \<and> (a = 1 \<longrightarrow>
          beta_pdf 0 a b = (if isFinite (beta a b) \<and> beta a b > 0 then 1 / beta a b else 0))
     \<and> (1 < b \<longrightarrow> beta_pdf 1 a b = 0)
     \<and> (b < 1 \<longrightarrow> beta_pdf 1 a b = PInf)
     \<and> (b = 1 \<longrightarrow>
          beta_pdf 1 a b = (if isFinite (beta a b) \<and> beta a b > 0 then 1 / beta a b else 0)))
   \<and> beta_pdf 0 2 2 = 0 \<and> beta_pdf 1 2 2 = 0
   \<and> beta_pdf 0 0.5 0.5 = PInf \<and> beta_pdf 1 0.5 0.5 = PInf
   \<and> isFinite (beta 1 1) \<and> beta 1 1 > 0 \<and> beta_pdf 0 1 1 = 1 / beta 1 1"
proof -
  have general:
    "(1 < a \<longrightarrow> beta_pdf 0 a b = 0)
     \<and> (a < 1 \<longrightarrow> beta_pdf 0 a b = PInf)
     \<and> (a = 1 \<longrightarrow>
          beta_pdf 0 a b = (if isFinite (beta a b) \<and> beta a b > 0 then 1 / beta a b else 0))
     \<and> (1 < b \<longrightarrow> beta_pdf 1 a b = 0)
     \<and> (b < 1 \<longrightarrow> beta_pdf 1 a b = PInf)
     \<and> (b = 1 \<longrightarrow>
          beta_pdf 1 a b = (if isFinite (beta a b) \<and> beta a b > 0 then 1 / beta a b else 0))"
    if ab: "0 < a \<and> 0 < b"
    using ab
    by (cases a; cases b)
      (auto simp add: beta_pdf_def num_simps strict_eq_def Let_def)
  have examples:
    "beta_pdf 0 2 2 = 0 \<and> beta_pdf 1 2 2 = 0
     \<and> beta_pdf 0 0.5 0.5 = PInf \<and> beta_pdf 1 0.5 0.5 = PInf"
    by (simp add: beta_pdf_def num_simps strict_eq_def)
  obtain G1 G2 where G: "gamma 1 = Fin G1" "0 < G1" "gamma 2 = Fin G2" "0 < G2"
    using gamma_1_2_pos by blast
  have "(1 :: number) + 1 = 2" by (simp add: num_simps)
  then have b11: "beta 1 1 = Fin (G1 * G1 / G2)"
    using G by (simp add: beta_def Let_def isFinite_def) (simp add: num_simps)
  have p: "0 < G1 * G1 / G2" using G by simp
  have one: "isFinite (beta 1 1) \<and> beta 1 1 > 0 \<and> beta_pdf 0 1 1 = 1 / beta 1 1"
    using p by (simp add: b11 beta_pdf_def strict_eq_def isFinite_def Let_def)
      (simp add: num_simps)
  from general examples one show ?thesis by blast
qed

theorem beta_pdf_boundary_witness:
  "(0 :: number) < 1 \<and> (0 :: number) < 3 \<and> (0 :: number) < 0.5
   \<and> beta_pdf 0 1 3 = (if isFinite (beta 1 3) \<and> beta 1 3 > 0 then 1 / beta 1 3 else 0)
   \<and> beta_pdf 1 1 3 = 0
   \<and> beta_pdf 0 3 0.5 = 0
   \<and> beta_pdf 1 3 0.5 = PInf
   \<and> beta_pdf 0 0.5 1 = PInf
   \<and> beta_pdf 1 0.5 1 = (if isFinite (beta 0.5 1) \<and> beta 0.5 1 > 0 then 1 / beta 0.5 1 else 0)"
  using beta_pdf_boundary [of 1 3] beta_pdf_boundary [of 3 "0.5"]
    beta_pdf_boundary [of "0.5" 1]
  by (simp add: num_simps)

section \<open>The Poisson evaluator\<close>

subsection \<open>Bounds on the constants\<close>

text \<open>
  Bounds on \<open>\<pi>\<close> from the Taylor polynomial of the cosine around \<open>\<pi>/2\<close>, and on
  \<open>exp(15/2)\<close> from the Taylor polynomial of the exponential at \<open>1/2\<close>.
\<close>

lemma sum_upto_16:
  fixes f :: "nat \<Rightarrow> real"
  shows "(\<Sum>m<16. f m) = f 0 + f 1 + f 2 + f 3 + f 4 + f 5 + f 6 + f 7 + f 8 + f 9 + f 10
           + f 11 + f 12 + f 13 + f 14 + f 15"
  by (simp add: eval_nat_numeral)

lemma fact_values:
  "fact 2 = (2 :: real)" "fact 4 = (24 :: real)" "fact 6 = (720 :: real)" "fact 8 = (40320 :: real)" "fact 10 = (3628800 :: real)" "fact 12 = (479001600 :: real)" "fact 14 = (87178291200 :: real)" "fact 16 = (20922789888000 :: real)"
  by (simp_all add: eval_nat_numeral)

lemma cos_sum_16:
  "(\<Sum>m<16. cos_coeff m * x ^ m) =
     1 - x ^ 2 / 2 + x ^ 4 / 24 - x ^ 6 / 720 + x ^ 8 / 40320 - x ^ 10 / 3628800
       + x ^ 12 / 479001600 - x ^ 14 / 87178291200"
  unfolding sum_upto_16 by (simp add: cos_coeff_def fact_values)


lemma cos_taylor_16:
  assumes "0 < x"
  shows "\<bar>cos x - (\<Sum>m<16. cos_coeff m * x ^ m)\<bar> \<le> x ^ 16 / 20922789888000"
proof -
  obtain t where t:
    "cos x = (\<Sum>m<16. cos_coeff m * x ^ m)
               + (cos (t + 1 / 2 * real 16 * pi) / fact 16) * x ^ 16"
    using Maclaurin_cos_expansion2 [OF assms, of 16] by auto
  have f: "fact 16 = (20922789888000 :: real)"
    by (simp add: eval_nat_numeral)
  define r where "r = cos (t + 1 / 2 * real 16 * pi)"
  have "\<bar>r\<bar> \<le> 1" unfolding r_def by (rule abs_cos_le_one)
  then have "\<bar>r\<bar> * (x ^ 16 / 20922789888000) \<le> 1 * (x ^ 16 / 20922789888000)"
    using assms by (intro mult_right_mono) simp_all
  moreover have "cos x - (\<Sum>m<16. cos_coeff m * x ^ m) = r * (x ^ 16 / 20922789888000)"
    using t by (simp add: f r_def)
  moreover have "0 \<le> x ^ 16 / 20922789888000"
    using assms by simp
  ultimately show ?thesis
    by (simp only: abs_mult abs_of_nonneg mult_1)
qed

lemma pi_bounds: "3.14159264 < pi" "pi < 3.14159266"
proof -
  define a :: real where "a = 1.57079632"
  define b :: real where "b = 1.57079633"
  have "0 < (\<Sum>m<16. cos_coeff m * a ^ m) - a ^ 16 / 20922789888000"
    unfolding cos_sum_16 a_def by (simp add: power_divide)
  moreover have "\<bar>cos a - (\<Sum>m<16. cos_coeff m * a ^ m)\<bar> \<le> a ^ 16 / 20922789888000"
    by (rule cos_taylor_16) (simp add: a_def)
  ultimately have ca: "0 < cos a" by linarith
  have "(\<Sum>m<16. cos_coeff m * b ^ m) + b ^ 16 / 20922789888000 < 0"
    unfolding cos_sum_16 b_def by (simp add: power_divide)
  moreover have "\<bar>cos b - (\<Sum>m<16. cos_coeff m * b ^ m)\<bar> \<le> b ^ 16 / 20922789888000"
    by (rule cos_taylor_16) (simp add: b_def)
  ultimately have cb: "cos b < 0" by linarith
  have a2: "0 \<le> a" "a \<le> 2" and b2: "0 \<le> b" by (simp_all add: a_def b_def)
  have "a < pi / 2"
  proof (rule ccontr)
    assume "\<not> a < pi / 2"
    then have "pi / 2 \<le> a" by simp
    moreover have "a \<le> pi" using pi_ge_two a2 by linarith
    ultimately have "cos a \<le> cos (pi / 2)"
      by (intro cos_monotone_0_pi_le) simp_all
    with ca show False by simp
  qed
  then show "3.14159264 < pi" by (simp add: a_def)
  have "pi / 2 < b"
  proof (rule ccontr)
    assume "\<not> pi / 2 < b"
    then have "b \<le> pi / 2" by simp
    moreover have "- (pi / 2) \<le> b" using b2 pi_ge_zero by linarith
    ultimately have "0 \<le> cos b" by (intro cos_ge_zero)
    with cb show False by simp
  qed
  then show "pi < 3.14159266" by (simp add: b_def)
qed

lemma exp_half_bounds:
  "1.6487212707 < exp (1 / 2 :: real)" "exp (1 / 2 :: real) < 1.6487212708"
proof -
  obtain t :: real where t: "\<bar>t\<bar> \<le> \<bar>1 / 2\<bar>"
    "exp (1 / 2) = (\<Sum>m<14. ((1 / 2) ^ m) / fact m) + (exp t / fact 14) * (1 / 2) ^ 14"
    using Maclaurin_exp_le [of "1 / 2" 14] by auto
  have s: "(\<Sum>m<14. ((1 / 2 :: real) ^ m) / fact m) = 28034721508153 / 17003918131200"
    by (simp add: eval_nat_numeral)
  have f: "fact 14 = (87178291200 :: real)" by (simp add: eval_nat_numeral)
  define r where "r = exp t"
  have "r \<le> 2" using exp_bound_half [of t] t by (simp add: r_def)
  then have r2: "r / 1428329123020800 \<le> 2 / 1428329123020800"
    by (intro divide_right_mono) simp_all
  have r0: "0 < r / 1428329123020800" by (simp add: r_def)
  have e: "exp (1 / 2) = 28034721508153 / 17003918131200 + r / 1428329123020800"
    using t(2) unfolding s f r_def by (simp add: power_divide)
  have n1: "(1.6487212707 :: real) < 28034721508153 / 17003918131200"
    by simp
  have n2: "(28034721508153 / 17003918131200 + 2 / 1428329123020800 :: real) < 1.6487212708"
    by simp
  from e r0 n1 show "1.6487212707 < exp (1 / 2 :: real)" by linarith
  from e r2 n2 show "exp (1 / 2 :: real) < 1.6487212708" by linarith
qed


lemma exp_15_half_bounds:
  "1.6487212707 ^ 15 < exp (15 / 2 :: real)" "exp (15 / 2 :: real) < 1.6487212708 ^ 15"
proof -
  have e: "exp (15 / 2 :: real) = exp (1 / 2) ^ 15"
    using exp_of_nat_mult [of 15 "1 / 2 :: real"] by simp
  show "1.6487212707 ^ 15 < exp (15 / 2 :: real)"
    unfolding e using exp_half_bounds(1) by (intro power_strict_mono) simp_all
  show "exp (15 / 2 :: real) < 1.6487212708 ^ 15"
    unfolding e using exp_half_bounds(2) by (intro power_strict_mono) simp_all
qed

lemma sqrt_21_pi_bounds: "8.1224039 < sqrt (21 * pi)" "sqrt (21 * pi) < 8.1224040"
proof -
  have "(8.1224039 :: real)\<^sup>2 < 21 * 3.14159264"
    by (simp add: power2_eq_square)
  also have "\<dots> < 21 * pi" using pi_bounds(1) by simp
  finally show "8.1224039 < sqrt (21 * pi)" by (rule real_less_rsqrt)
  have "21 * pi < 21 * 3.14159266" using pi_bounds(2) by simp
  also have "\<dots> < (8.1224040 :: real)\<^sup>2"
    by (simp add: power2_eq_square)
  finally show "sqrt (21 * pi) < 8.1224040"
    by (intro real_less_lsqrt) simp_all
qed

lemma poisson_value_bounds:
  fixes E Q :: real
  defines "K \<equiv> (21 / 2) ^ 3 * (28677153240609897439414241 / 1237500000000000000000000)"
  assumes "1.6487212707 ^ 15 < E" "E < 1.6487212708 ^ 15" "8.1224039 < Q" "Q < 8.1224040"
  shows "0.22404175 < 27 * E / (Q * K)" "27 * E / (Q * K) < 0.22404185"
proof -
  have K: "0 < K" by (simp add: K_def)
  have Q: "0 < Q" using assms(4) by simp
  have QK: "0 < Q * K" using K Q by simp
  have "0.22404175 * (Q * K) < 0.22404175 * (8.1224040 * K)"
    using K assms(5) by simp
  also have "\<dots> < 27 * 1.6487212707 ^ 15"
    by (simp add: K_def power_divide)
  also have "\<dots> < 27 * E" using assms(2) by simp
  finally show "0.22404175 < 27 * E / (Q * K)"
    using QK by (simp add: pos_less_divide_eq)
  have "27 * E < 27 * 1.6487212708 ^ 15" using assms(3) by simp
  also have "\<dots> < 0.22404185 * (8.1224039 * K)"
    by (simp add: K_def power_divide)
  also have "\<dots> < 0.22404185 * (Q * K)"
    using K assms(4) by simp
  finally show "27 * E / (Q * K) < 0.22404185"
    using QK by (simp add: pos_divide_less_eq)
qed

subsection \<open>The value at \<open>k = 3\<close>, \<open>\<lambda> = 3\<close>\<close>

lemma lanczos_sum_3: "lanczos_sum 3 = 28677153240609897439414241 / 1237500000000000000000000"
  by (simp add: lanczos_sum_def)

lemma gamma_4:
  "gamma 4 = Fin (sqrt (2 * pi) * (21 / 2) powr (7 / 2) * exp (- (21 / 2)) * lanczos_sum 3)"
proof -
  have "gamma 4 = lanczos (Fin 4)"
    by (subst gamma.simps) (simp add: num_simps)
  also have "\<dots> =
      Fin (sqrt (2 * pi) * (if (4 :: real) = 1 / 2 then 1 else (4 + 13 / 2) powr (4 - 1 / 2))
             * exp (- (4 + 13 / 2)) * lanczos_sum (4 - 1))"
    by (rule lanczos_Fin) simp
  finally show ?thesis by simp
qed

lemma poisson_3_3:
  "poisson_pdf 3 3 =
     Fin (27 * exp (15 / 2)
            / (sqrt (21 * pi)
                 * ((21 / 2) ^ 3 * (28677153240609897439414241 / 1237500000000000000000000))))"
proof -
  define G where "G = sqrt (2 * pi) * (21 / 2) powr (7 / 2) * exp (- (21 / 2)) * lanczos_sum 3"
  have S: "0 < lanczos_sum 3" by (simp add: lanczos_sum_3)
  have G0: "0 < G" unfolding G_def using S by (intro mult_pos_pos) simp_all
  have g4: "gamma 4 = Fin G" by (simp add: gamma_4 G_def)
  have "logFactorial 3 = logGamma 4"
    by (simp add: logFactorial_def num_simps strict_eq_def)
  also have "\<dots> = Fin (ln G)"
    using G0 by (simp add: logGamma_def g4 isFinite_def Math_log_def Let_def zero_number_def)
      (simp add: num_simps)
  finally have lf: "logFactorial (Fin 3) = Fin (ln G)"
    by (simp add: num_simps)
  have p: "poisson_pdf 3 3 = Fin (exp (3 * ln 3 - 3 - ln G))"
    by (simp add: poisson_pdf_def lf Number_isInteger_def num_simps Math_log_def Math_exp_def)
  have "exp (3 * ln 3 - 3 - ln G) = exp (3 * ln 3) / exp 3 / exp (ln G)"
    by (simp add: exp_diff)
  also have "exp (3 * ln (3 :: real)) = 27"
    using exp_of_nat_mult [of 3 "ln (3 :: real)"] by simp
  also have "exp (ln G) = G" using G0 by simp
  finally have v: "exp (3 * ln 3 - 3 - ln G) = 27 / exp 3 / G" .
  have pw: "(21 / 2 :: real) powr (7 / 2) = (21 / 2) ^ 3 * sqrt (21 / 2)"
  proof -
    have "(21 / 2 :: real) powr (7 / 2) = (21 / 2) powr (3 + 1 / 2)" by simp
    also have "\<dots> = (21 / 2) powr 3 * (21 / 2) powr (1 / 2)" by (rule powr_add)
    also have "\<dots> = (21 / 2) ^ 3 * sqrt (21 / 2)"
      by (simp add: powr_half_sqrt)
    finally show ?thesis .
  qed
  have sq: "sqrt (2 * pi) * sqrt (21 / 2) = sqrt (21 * pi)"
    by (simp add: real_sqrt_mult [symmetric])
  have "exp (3 :: real) * exp (15 / 2) = exp (21 / 2)"
    by (simp add: exp_add [symmetric])
  then have ex: "exp (- (21 / 2) :: real) = 1 / (exp 3 * exp (15 / 2))"
    by (simp add: exp_minus inverse_eq_divide)
  have "27 / exp 3 / G = 27 * exp (15 / 2) / (sqrt (21 * pi) * ((21 / 2) ^ 3 * lanczos_sum 3))"
    unfolding G_def pw ex sq [symmetric] by (simp add: field_simps)
  with v p show ?thesis by (simp add: lanczos_sum_3)
qed

lemma poisson_3_3_bounds:
  "(0.22404175 :: number) < poisson_pdf 3 3 \<and> poisson_pdf 3 3 < 0.22404185"
proof -
  define V :: real where
    "V = 27 * exp (15 / 2)
           / (sqrt (21 * pi)
                * ((21 / 2) ^ 3 * (28677153240609897439414241 / 1237500000000000000000000)))"
  have b: "0.22404175 < V" "V < 0.22404185"
    unfolding V_def by (rule poisson_value_bounds [OF exp_15_half_bounds sqrt_21_pi_bounds])+
  have p: "poisson_pdf 3 3 = Fin V"
    unfolding V_def by (rule poisson_3_3)
  have c: "(0.22404175 :: number) = Fin 0.22404175" "(0.22404185 :: number) = Fin 0.22404185"
    by (simp_all add: num_simps)
  show ?thesis
    unfolding p c using b by simp
qed

text \<open>
  C7: for every integer \<open>k \<ge> 0\<close> and every \<open>\<lambda> > 0\<close> the Poisson evaluator returns
  \<open>exp(k ln \<lambda> - \<lambda> - logFactorial(k))\<close>. \<open>Poisson.pdf(3, 3)\<close> is \<open>0.2240418\<close> to seven
  decimal places: it lies strictly between \<open>0.22404175\<close> and \<open>0.22404185\<close>.
  \<open>Poisson.pdf(1.5, 3)\<close> is \<open>0\<close>, because \<open>1.5\<close> is not an integer.
\<close>

theorem poisson_pdf_formula:
  "(Number_isInteger k \<and> k \<ge> 0 \<and> lambda > 0 \<longrightarrow>
      poisson_pdf k lambda = Math_exp (k * Math_log lambda - lambda - logFactorial k))
   \<and> 0.22404175 < poisson_pdf 3 3 \<and> poisson_pdf 3 3 < 0.22404185
   \<and> \<not> Number_isInteger 1.5 \<and> poisson_pdf 1.5 3 = 0"
proof (intro conjI impI)
  assume "Number_isInteger k \<and> k \<ge> 0 \<and> lambda > 0"
  then show "poisson_pdf k lambda = Math_exp (k * Math_log lambda - lambda - logFactorial k)"
    by (cases k; cases lambda) (auto simp add: poisson_pdf_def num_simps Let_def)
next
  show "0.22404175 < poisson_pdf 3 3" "poisson_pdf 3 3 < 0.22404185"
    using poisson_3_3_bounds by blast+
next
  show "\<not> Number_isInteger 1.5" "poisson_pdf 1.5 3 = 0"
    by (simp_all add: poisson_pdf_def num_simps Number_isInteger_def)
qed

theorem poisson_pdf_formula_witness:
  "Number_isInteger 3 \<and> (3 :: number) \<ge> 0 \<and> (3 :: number) > 0
   \<and> poisson_pdf 3 3 = Math_exp (3 * Math_log 3 - 3 - logFactorial 3)"
proof -
  have h: "Number_isInteger 3 \<and> (3 :: number) \<ge> 0 \<and> (3 :: number) > 0"
    by (simp add: Number_isInteger_def num_simps)
  with poisson_pdf_formula [of 3 3] show ?thesis by blast
qed

end
